theory Spec2Isabelle
  imports Complex_Main
begin

section \<open>Particles and vectors\<close>

text \<open>
  The grid of \<^verbatim>\<open>grid.h\<close> buckets particles by position.  Floating-point numbers
  (\<^verbatim>\<open>float\<close>, \<^verbatim>\<open>double\<close>) are idealised as exact reals and their arithmetic as exact; the
  conversions \<^verbatim>\<open>static_cast<float>\<close> are the identity.  The cell indices are integers
  without overflow.
\<close>

record FourVector =
  x0 :: real
  x1 :: real
  x2 :: real
  x3 :: real

type_synonym ThreeVector = "real \<times> real \<times> real"

definition threevec :: "FourVector \<Rightarrow> ThreeVector" where
  "threevec v = (x1 v, x2 v, x3 v)"

definition fv_zero :: FourVector where
  "fv_zero = \<lparr>x0 = 0, x1 = 0, x2 = 0, x3 = 0\<rparr>"

definition fv_plus :: "FourVector \<Rightarrow> FourVector \<Rightarrow> FourVector" where
  "fv_plus a b = \<lparr>x0 = x0 a + x0 b, x1 = x1 a + x1 b, x2 = x2 a + x2 b, x3 = x3 a + x3 b\<rparr>"

definition fv_minus :: "FourVector \<Rightarrow> FourVector \<Rightarrow> FourVector" where
  "fv_minus a b = \<lparr>x0 = x0 a - x0 b, x1 = x1 a - x1 b, x2 = x2 a - x2 b, x3 = x3 a - x3 b\<rparr>"

record ParticleData =
  pid :: int
  position :: FourVector

definition set_4position :: "FourVector \<Rightarrow> ParticleData \<Rightarrow> ParticleData" where
  "set_4position v p = p\<lparr>position := v\<rparr>"

type_synonym ParticleList = "ParticleData list"

section \<open>The grid\<close>

datatype GridOptions = Normal | PeriodicBoundaries

type_synonym 'a array3 = "'a \<times> 'a \<times> 'a"

definition max_interaction_length :: "real array3" where
  "max_interaction_length = (5/2, 5/2, 5/2)"

record Grid =
  min_position :: "real array3"
  index_factor :: "real array3"
  number_of_cells :: "int array3"
  cells :: "ParticleList list"

datatype grid_error =
    EmptyParticleList
  | UndefinedConversion
  | OutOfBounds ParticleData int "ParticleList list"

text \<open>
  \<^verbatim>\<open>find_min_max_positions\<close> starts from the first particle and reads it without a check;
  on an empty collection the model returns an error.
\<close>

definition min_max_step ::
  "ParticleData \<Rightarrow> real array3 \<times> real array3 \<Rightarrow> real array3 \<times> real array3" where
  "min_max_step p r =
     (case (r, threevec (position p)) of
        (((a0, a1, a2), (b0, b1, b2)), (p0, p1, p2)) \<Rightarrow>
          ((min a0 p0, min a1 p1, min a2 p2), (max b0 p0, max b1 p1, max b2 p2)))"

fun find_min_max_positions ::
  "ParticleList \<Rightarrow> grid_error + (real array3 \<times> real array3)" where
  "find_min_max_positions [] = Inl EmptyParticleList"
| "find_min_max_positions (p # ps) =
     (let first = threevec (position p)
      in Inr (fold min_max_step (p # ps) (first, first)))"

text \<open>
  \<^verbatim>\<open>static_cast<int>\<close> of a floating-point value, also where the conversion is implicit,
  truncates towards zero.  The behaviour is undefined when the truncated value is no
  \<^verbatim>\<open>int\<close> of 32 bits; the model then returns no value.
\<close>

definition static_cast_int :: "real \<Rightarrow> int option" where
  "static_cast_int v =
     (let t = (if 0 \<le> v then \<lfloor>v\<rfloor> else \<lceil>v\<rceil>)
      in if - (2 ^ 31) \<le> t \<and> t < 2 ^ 31 then Some t else None)"

text \<open>
  One pass of the loop over the axes (lines 134 to 144 of \<^verbatim>\<open>grid.h\<close>), for the
  \<^verbatim>\<open>max_cells\<close> computed before the loop.
\<close>

definition resolve_axis :: "int \<Rightarrow> real \<Rightarrow> real \<Rightarrow> real \<Rightarrow> (int \<times> real) option" where
  "resolve_axis max_cells len min_p max_p =
     (let f = 1 / len
      in case static_cast_int (real_of_int \<lceil>(max_p - min_p) * f\<rceil>) of
           None \<Rightarrow> None
         | Some c \<Rightarrow>
             (let n = max 1 c
              in if n > max_cells
                 then Some (max_cells, (real_of_int max_cells - 1/10) / (max_p - min_p))
                 else Some (n, f)))"

text \<open>
  \<^verbatim>\<open>const int max_cells = std::cbrt(particle_count)\<close> converts the \<^verbatim>\<open>double\<close> the library
  returns.  The library function is a parameter of the model, \<open>std_cbrt\<close>: its result
  need not be the exact cube root.
\<close>

definition resolve_geometry ::
  "(real \<Rightarrow> real) \<Rightarrow> nat \<Rightarrow> real array3 \<Rightarrow> real array3 \<Rightarrow> (int array3 \<times> real array3) option" where
  "resolve_geometry std_cbrt particle_count min_p max_p =
     (case (min_p, max_p, max_interaction_length) of
        ((a0, a1, a2), (b0, b1, b2), (l0, l1, l2)) \<Rightarrow>
          (case static_cast_int (std_cbrt (real particle_count)) of
             None \<Rightarrow> None
           | Some max_cells \<Rightarrow>
               (case resolve_axis max_cells l0 a0 b0 of
                  None \<Rightarrow> None
                | Some (n0, f0) \<Rightarrow>
                    (case resolve_axis max_cells l1 a1 b1 of
                       None \<Rightarrow> None
                     | Some (n1, f1) \<Rightarrow>
                         (case resolve_axis max_cells l2 a2 b2 of
                            None \<Rightarrow> None
                          | Some (n2, f2) \<Rightarrow> Some ((n0, n1, n2), (f0, f1, f2)))))))"

definition make_index :: "Grid \<Rightarrow> int \<Rightarrow> int \<Rightarrow> int \<Rightarrow> int" where
  "make_index g x y z =
     (case number_of_cells g of (nx, ny, nz) \<Rightarrow> (z * ny + y) * nx + x)"

definition make_index_pos :: "GridOptions \<Rightarrow> Grid \<Rightarrow> ThreeVector \<Rightarrow> int" where
  "make_index_pos opt g pos =
     (case (pos, min_position g, index_factor g) of
        ((p0, p1, p2), (m0, m1, m2), (f0, f1, f2)) \<Rightarrow>
          (case opt of
             Normal \<Rightarrow>
               make_index g \<lfloor>(p0 - m0) * f0\<rfloor> \<lfloor>(p1 - m1) * f1\<rfloor> \<lfloor>(p2 - m2) * f2\<rfloor>
           | PeriodicBoundaries \<Rightarrow>
               make_index g (1 + \<lfloor>(p0 - m0) * f0\<rfloor>) (1 + \<lfloor>(p1 - m1) * f1\<rfloor>)
                 \<lfloor>(p2 - m2) * f2\<rfloor>))"

definition is_ghost_cell :: "Grid \<Rightarrow> int \<Rightarrow> int \<Rightarrow> int \<Rightarrow> bool" where
  "is_ghost_cell g x y z =
     (case number_of_cells g of (nx, ny, nz) \<Rightarrow>
        z + 1 = nz \<or> y = 0 \<or> y + 1 = ny \<or> x = 0 \<or> x + 1 = nx)"

definition push_back :: "ParticleData \<Rightarrow> int \<Rightarrow> ParticleList list \<Rightarrow> ParticleList list" where
  "push_back p idx cs = cs[nat idx := cs ! nat idx @ [p]]"

text \<open>
  The two bucketing loops, with the checks of the debug build.  The comparison
  \<^verbatim>\<open>idx >= cells_.size()\<close> is unsigned, so a negative index fails it too.  The error
  carries the cells as they are when the exception is thrown.
\<close>

fun fill_normal :: "Grid \<Rightarrow> ParticleList \<Rightarrow> grid_error + Grid" where
  "fill_normal g [] = Inr g"
| "fill_normal g (p # ps) =
     (let idx = make_index_pos Normal g (threevec (position p))
      in if idx < 0 \<or> idx \<ge> int (length (cells g))
         then Inl (OutOfBounds p idx (cells g))
         else fill_normal (g\<lparr>cells := push_back p idx (cells g)\<rparr>) ps)"

fun fill_non_ghost :: "Grid \<Rightarrow> ParticleList \<Rightarrow> grid_error + Grid" where
  "fill_non_ghost g [] = Inr g"
| "fill_non_ghost g (p # ps) =
     (case number_of_cells g of (nx, ny, nz) \<Rightarrow>
        (let idx = make_index_pos PeriodicBoundaries g (threevec (position p))
         in if idx < make_index g 1 1 0
               \<or> idx \<ge> make_index g (nx - 1) (ny - 1) (nz - 1)
               \<or> (idx < 0 \<or> idx \<ge> int (length (cells g)))
            then Inl (OutOfBounds p idx (cells g))
            else fill_non_ghost (g\<lparr>cells := push_back p idx (cells g)\<rparr>) ps))"

text \<open>The body of the ghost-cell loop for one cell \<open>(x, y, z)\<close>.\<close>

definition fill_ghost_cell :: "real array3 \<Rightarrow> int \<Rightarrow> int \<Rightarrow> int \<Rightarrow> Grid \<Rightarrow> Grid" where
  "fill_ghost_cell len z y x g =
     (case (number_of_cells g, len) of ((nx, ny, nz), (len0, len1, len2)) \<Rightarrow>
        if is_ghost_cell g x y z then
          (let idx = make_index g x y z;
               (copy_idx, position_shift) = (idx, fv_zero);
               (copy_idx, position_shift) =
                 (if x = 0 then (copy_idx + (nx - 2), position_shift\<lparr>x1 := - len0\<rparr>)
                  else if x = nx - 1 then (copy_idx - (nx - 2), position_shift\<lparr>x1 := len0\<rparr>)
                  else (copy_idx, position_shift));
               (copy_idx, position_shift) =
                 (if y = 0 then (copy_idx + (ny - 2) * nx, position_shift\<lparr>x2 := - len1\<rparr>)
                  else if y = ny - 1 then (copy_idx - (ny - 2) * nx, position_shift\<lparr>x2 := len1\<rparr>)
                  else (copy_idx, position_shift));
               (copy_idx, position_shift) =
                 (if z = nz - 1 then (copy_idx - (nz - 1) * (nx * ny), position_shift\<lparr>x3 := len2\<rparr>)
                  else (copy_idx, position_shift));
               cell = cells g ! nat copy_idx
           in g\<lparr>cells := (cells g)[nat idx :=
                  map (\<lambda>p. set_4position (fv_plus (position p) position_shift) p) cell]\<rparr>)
        else g)"

definition fill_ghost_cells :: "real array3 \<Rightarrow> Grid \<Rightarrow> Grid" where
  "fill_ghost_cells len g =
     (case number_of_cells g of (nx, ny, nz) \<Rightarrow>
        fold (\<lambda>z. fold (\<lambda>y. fold (\<lambda>x. fill_ghost_cell len z y x) [0..nx - 1]) [0..ny - 1])
          [0..nz - 1] g)"

text \<open>The constructor taking the bounding box, and the one computing it.\<close>

definition Grid_init ::
  "(real \<Rightarrow> real) \<Rightarrow> GridOptions \<Rightarrow> ParticleList \<Rightarrow> real array3 \<times> real array3 \<Rightarrow>
   grid_error + Grid" where
  "Grid_init std_cbrt opt all_particles min_max_positions =
     (let particle_count = length all_particles in
      if \<not> particle_count > 0 then Inl EmptyParticleList
      else
        (case resolve_geometry std_cbrt particle_count
                (fst min_max_positions) (snd min_max_positions) of
           None \<Rightarrow> Inl UndefinedConversion
         | Some ((n0, n1, n2), fs) \<Rightarrow>
             (case min_max_positions of ((a0, a1, a2), (b0, b1, b2)) \<Rightarrow>
                (let g = \<lparr>min_position = (a0, a1, a2), index_factor = fs,
                          number_of_cells = (n0, n1, n2), cells = []\<rparr>
                 in if opt = PeriodicBoundaries then
                      (let g = g\<lparr>number_of_cells := (n0 + 2, n1 + 2, n2 + 1)\<rparr>;
                           len = (b0 - a0, b1 - a1, b2 - a2);
                           g = g\<lparr>cells := replicate (nat ((n0 + 2) * (n1 + 2) * (n2 + 1))) []\<rparr>
                       in case fill_non_ghost g all_particles of
                            Inl e \<Rightarrow> Inl e
                          | Inr g \<Rightarrow> Inr (fill_ghost_cells len g))
                    else if n0 \<le> 2 \<and> n1 \<le> 2 \<and> n2 \<le> 2 then
                      Inr (g\<lparr>number_of_cells := (1, 1, 1), cells := [all_particles]\<rparr>)
                    else
                      fill_normal (g\<lparr>cells := replicate (nat (n0 * n1 * n2)) []\<rparr>)
                        all_particles))))"

definition Grid_new :: "(real \<Rightarrow> real) \<Rightarrow> GridOptions \<Rightarrow> ParticleList \<Rightarrow> grid_error + Grid" where
  "Grid_new std_cbrt opt all_particles =
     (case find_min_max_positions all_particles of
        Inl e \<Rightarrow> Inl e
      | Inr mm \<Rightarrow> Grid_init std_cbrt opt all_particles mm)"

section \<open>Traversal\<close>

text \<open>
  \<^verbatim>\<open>iterate_cells\<close> calls \<^verbatim>\<open>call_finder\<close> once per home cell.  The model returns the
  calls in order: first as pairs of the home index and the indices collected in
  \<^verbatim>\<open>neighbors\<close>, then with the cells read from \<^verbatim>\<open>cells_\<close>.
\<close>

definition call_closure ::
  "Grid \<Rightarrow> int \<Rightarrow> int list \<Rightarrow> int list \<Rightarrow> int list \<Rightarrow> int \<times> int list" where
  "call_closure g cell_index xoffsets yoffsets zoffsets =
     (case number_of_cells g of (nx, ny, nz) \<Rightarrow>
        (cell_index,
         concat (map (\<lambda>dz.
           let cell_index_dz = cell_index + dz * ny * nx in
           concat (map (\<lambda>dy.
             let cell_index_dzdy = cell_index_dz + dy * nx in
             concat (map (\<lambda>dx.
               let cell_index_dzdydx = cell_index_dzdy + dx in
               if cell_index_dzdydx > cell_index then [cell_index_dzdydx] else [])
               xoffsets))
             yoffsets))
           zoffsets)))"

definition build_neighbors_with_zy ::
  "Grid \<Rightarrow> int \<Rightarrow> int \<Rightarrow> int list \<Rightarrow> int list \<Rightarrow> (int \<times> int list) list" where
  "build_neighbors_with_zy g y z yoffsets zoffsets =
     (case number_of_cells g of (nx, ny, nz) \<Rightarrow>
        if nx > 1 then
          call_closure g (make_index g 0 y z) [0, 1] yoffsets zoffsets
          # map (\<lambda>x. call_closure g (make_index g x y z) [-1, 0, 1] yoffsets zoffsets)
              [1..nx - 2]
          @ [call_closure g (make_index g (nx - 1) y z) [-1, 0] yoffsets zoffsets]
        else [call_closure g (make_index g 0 y z) [0] yoffsets zoffsets])"

definition build_neighbors_with_z ::
  "Grid \<Rightarrow> int \<Rightarrow> int list \<Rightarrow> (int \<times> int list) list" where
  "build_neighbors_with_z g z zoffsets =
     (case number_of_cells g of (nx, ny, nz) \<Rightarrow>
        if ny > 1 then
          build_neighbors_with_zy g 0 z [0, 1] zoffsets
          @ concat (map (\<lambda>y. build_neighbors_with_zy g y z [-1, 0, 1] zoffsets) [1..ny - 2])
          @ build_neighbors_with_zy g (ny - 1) z [-1, 0] zoffsets
        else build_neighbors_with_zy g 0 z [0] zoffsets)"

definition iterate_cells_idx :: "GridOptions \<Rightarrow> Grid \<Rightarrow> (int \<times> int list) list" where
  "iterate_cells_idx opt g =
     (case number_of_cells g of (nx, ny, nz) \<Rightarrow>
        if opt = PeriodicBoundaries then
          (let max_x = nx - 1; max_y = ny - 1; max_z = nz - 1 in
           concat (map (\<lambda>z. concat (map (\<lambda>y. map (\<lambda>x.
             call_closure g (make_index g x y z) [-1, 0, 1] [-1, 0, 1] [0, 1])
             [1..max_x - 1]) [1..max_y - 1])) [0..max_z - 1]))
        else
          concat (map (\<lambda>z. build_neighbors_with_z g z [0, 1]) [0..nz - 2])
          @ build_neighbors_with_z g (nz - 1) [0])"

definition call_finder_args :: "Grid \<Rightarrow> int \<times> int list \<Rightarrow> ParticleList \<times> ParticleList list" where
  "call_finder_args g c = (cells g ! nat (fst c), map (\<lambda>j. cells g ! nat j) (snd c))"

definition iterate_cells :: "GridOptions \<Rightarrow> Grid \<Rightarrow> (ParticleList \<times> ParticleList list) list" where
  "iterate_cells opt g = map (call_finder_args g) (iterate_cells_idx opt g)"


text \<open>Two grids with the same geometry and the same number of cells.\<close>

definition same_geometry :: "Grid \<Rightarrow> Grid \<Rightarrow> bool" where
  "same_geometry g g' \<longleftrightarrow>
     min_position g' = min_position g \<and> index_factor g' = index_factor g \<and>
     number_of_cells g' = number_of_cells g \<and> length (cells g') = length (cells g)"

text \<open>
  The geometry resolution as the specification words it, per axis: the index factor is
  the inverse of the interaction length, the naive count is the ceiling of the extent
  times the factor, clamped to at least one, and a count above
  \<open>\<lfloor>cbrt particle_count\<rfloor>\<close> is capped, with the factor rescaled.  The cube root is a
  parameter: \<open>root 3\<close> is the exact one.
\<close>

definition spec_resolve_axis :: "(real \<Rightarrow> real) \<Rightarrow> nat \<Rightarrow> real \<Rightarrow> real \<Rightarrow> int \<times> real" where
  "spec_resolve_axis cbrt particle_count min_c max_c =
     (let interaction_length = 5/2;
          index_factor = 1 / interaction_length;
          naive_count = max 1 \<lceil>(max_c - min_c) * index_factor\<rceil>;
          max_cells = \<lfloor>cbrt (real particle_count)\<rfloor>
      in if naive_count > max_cells
         then (max_cells, (real_of_int max_cells - 1/10) / (max_c - min_c))
         else (naive_count, index_factor))"

section \<open>The deformed nucleus\<close>

text \<open>
  \<^verbatim>\<open>DeformedNucleus\<close> extends \<^verbatim>\<open>Nucleus\<close>, whose state is the type parameter \<open>'n\<close>.
  The inherited \<^verbatim>\<open>Nucleus::set_parameters_automatic\<close> and
  \<^verbatim>\<open>Nucleus::number_of_particles\<close> are parameters of the model, and so is the orientation
  drawn by \<^verbatim>\<open>distribute_isotropically\<close>.
\<close>

datatype domain_error = DomainError string

record 'n DeformedNucleus =
  nucleus :: 'n
  beta2 :: real
  beta4 :: real
  nuclear_orientation :: "real \<times> real"

definition set_beta_2 :: "real \<Rightarrow> 'n DeformedNucleus \<Rightarrow> 'n DeformedNucleus" where
  "set_beta_2 b d = d\<lparr>beta2 := b\<rparr>"

definition set_beta_4 :: "real \<Rightarrow> 'n DeformedNucleus \<Rightarrow> 'n DeformedNucleus" where
  "set_beta_4 b d = d\<lparr>beta4 := b\<rparr>"

definition set_parameters_automatic ::
  "('n \<Rightarrow> domain_error + 'n) \<Rightarrow> ('n \<Rightarrow> nat) \<Rightarrow> real \<times> real \<Rightarrow>
   'n DeformedNucleus \<Rightarrow> domain_error + 'n DeformedNucleus" where
  "set_parameters_automatic Nucleus_set_parameters_automatic number_of_particles
     random_orientation d =
     (case Nucleus_set_parameters_automatic (nucleus d) of
        Inl e \<Rightarrow> Inl e
      | Inr n \<Rightarrow>
          (let d = d\<lparr>nucleus := n\<rparr>;
               a = number_of_particles (nucleus d);
               r = (if a = 238 then Inr (set_beta_4 (93/1000) (set_beta_2 (215/1000) d))
                    else if a = 208 then Inr (set_beta_4 0 (set_beta_2 0 d))
                    else if a = 197 then Inr (set_beta_4 (- (31/1000)) (set_beta_2 (- (131/1000)) d))
                    else if a = 63 then Inr (set_beta_4 (- (6/1000)) (set_beta_2 (162/1000) d))
                    else Inl (DomainError
                      ''Mass number not listed in DeformedNucleus::set_parameters_automatic.''))
           in case r of
                Inl e \<Rightarrow> Inl e
              | Inr d \<Rightarrow> Inr (d\<lparr>nuclear_orientation := random_orientation\<rparr>)))"

definition y_l_0 :: "int \<Rightarrow> real \<Rightarrow> domain_error + real" where
  "y_l_0 l cosx =
     (if l = 2 then Inr ((1/4) * sqrt (5 / pi) * (3 * (cosx * cosx) - 1))
      else if l = 4 then
        Inr ((3/16) * sqrt (1 / pi)
             * (35 * (cosx * cosx) * (cosx * cosx) - 30 * (cosx * cosx) + 3))
      else Inl (DomainError
        ''Not a valid angular momentum quantum number in DeformedNucleus::y_l_0.''))"

section \<open>Concrete particle sets\<close>

definition particle :: "int \<Rightarrow> real \<Rightarrow> real \<Rightarrow> real \<Rightarrow> ParticleData" where
  "particle i x y z = \<lparr>pid = i, position = \<lparr>x0 = 0, x1 = x, x2 = y, x3 = z\<rparr>\<rparr>"

text \<open>27 particles on a \<open>3 \<times> 3 \<times> 3\<close> lattice with spacing \<open>s\<close>, numbered \<open>9 k + 3 j + i\<close>.\<close>

definition lattice27 :: "real \<Rightarrow> ParticleList" where
  "lattice27 s =
     concat (map (\<lambda>k. concat (map (\<lambda>j. map (\<lambda>i.
       particle (9 * k + 3 * j + i) (s * real_of_int i) (s * real_of_int j) (s * real_of_int k))
       [0..2]) [0..2])) [0..2])"

text \<open>\<open>n\<close> particles on the x axis with spacing \<open>s\<close>, numbered from 0.\<close>

definition line :: "int \<Rightarrow> real \<Rightarrow> ParticleList" where
  "line n s = map (\<lambda>i. particle i (s * real_of_int i) 0 0) [0..n - 1]"

text \<open>
  The cube roots the C library (glibc 2.39) returns for the particle counts of the
  examples: exactly 1 and 2 at 1 and 8, \<open>3 + 2\<^sup>-\<^sup>5\<^sup>1\<close> at 27, and \<open>15 - 2\<^sup>-\<^sup>4\<^sup>9\<close> at
  \<open>3375 = 15\<^sup>3\<close>.  The table has no other entry; elsewhere it is 0.
\<close>

definition cbrt_sample :: "real \<Rightarrow> real" where
  "cbrt_sample v =
     (if v = 1 then 1 else if v = 8 then 2 else if v = 27 then 3 + 1 / 2 ^ 51
      else if v = 3375 then 15 - 1 / 2 ^ 49 else 0)"

text \<open>
  The checks of the two bucketing loops, as predicates on a particle, and the insertion
  both loops perform for a particle that passes.
\<close>

definition out_of_bounds :: "GridOptions \<Rightarrow> Grid \<Rightarrow> ParticleData \<Rightarrow> bool" where
  "out_of_bounds opt g p =
     (let idx = make_index_pos opt g (threevec (position p))
      in case opt of
           Normal \<Rightarrow> idx < 0 \<or> idx \<ge> int (length (cells g))
         | PeriodicBoundaries \<Rightarrow>
             (case number_of_cells g of (nx, ny, nz) \<Rightarrow>
                idx < make_index g 1 1 0
                \<or> idx \<ge> make_index g (nx - 1) (ny - 1) (nz - 1)
                \<or> (idx < 0 \<or> idx \<ge> int (length (cells g)))))"

definition bucket :: "GridOptions \<Rightarrow> Grid \<Rightarrow> ParticleData \<Rightarrow> ParticleList list \<Rightarrow> ParticleList list" where
  "bucket opt g p cs = push_back p (make_index_pos opt g (threevec (position p))) cs"

text \<open>Both bucketing loops written as one function of the mode, for the proofs.\<close>

fun fill_cells :: "GridOptions \<Rightarrow> Grid \<Rightarrow> ParticleList \<Rightarrow> grid_error + Grid" where
  "fill_cells opt g [] = Inr g"
| "fill_cells opt g (p # ps) =
     (if out_of_bounds opt g p
      then Inl (OutOfBounds p (make_index_pos opt g (threevec (position p))) (cells g))
      else fill_cells opt (g\<lparr>cells := bucket opt g p (cells g)\<rparr>) ps)"

text \<open>
  The cell coordinates of a linear index, the coordinates in range, and adjacent cells
  (coordinates that differ by at most one on every axis).
\<close>

definition in_grid :: "Grid \<Rightarrow> int \<times> int \<times> int \<Rightarrow> bool" where
  "in_grid g c =
     (case (number_of_cells g, c) of ((nx, ny, nz), (x, y, z)) \<Rightarrow>
        0 \<le> x \<and> x < nx \<and> 0 \<le> y \<and> y < ny \<and> 0 \<le> z \<and> z < nz)"

definition cell_coords :: "Grid \<Rightarrow> int \<Rightarrow> int \<times> int \<times> int" where
  "cell_coords g i =
     (case number_of_cells g of (nx, ny, nz) \<Rightarrow> (i mod nx, (i div nx) mod ny, i div (nx * ny)))"


text \<open>
  The offsets \<^verbatim>\<open>build_neighbors_with_zy\<close> and \<^verbatim>\<open>build_neighbors_with_z\<close> choose for a
  coordinate \<open>c\<close> on an axis of \<open>n\<close> cells, the offsets of the loop over z, and the call
  made for one home cell in each mode.
\<close>

definition edge_offsets :: "int \<Rightarrow> int \<Rightarrow> int list" where
  "edge_offsets n c =
     (if n > 1 then (if c = 0 then [0, 1] else if c = n - 1 then [-1, 0] else [-1, 0, 1])
      else [0])"

definition z_offsets :: "int \<Rightarrow> int \<Rightarrow> int list" where
  "z_offsets n c = (if c = n - 1 then [0] else [0, 1])"

definition home_call :: "GridOptions \<Rightarrow> Grid \<Rightarrow> int \<times> int \<times> int \<Rightarrow> int \<times> int list" where
  "home_call opt g c =
     (case (number_of_cells g, c) of ((nx, ny, nz), (x, y, z)) \<Rightarrow>
        (case opt of
           Normal \<Rightarrow>
             call_closure g (make_index g x y z)
               (edge_offsets nx x) (edge_offsets ny y) (z_offsets nz z)
         | PeriodicBoundaries \<Rightarrow>
             call_closure g (make_index g x y z) [-1, 0, 1] [-1, 0, 1] [0, 1]))"

text \<open>The home cells in the order of the traversal.\<close>

definition home_cells :: "GridOptions \<Rightarrow> Grid \<Rightarrow> (int \<times> int \<times> int) list" where
  "home_cells opt g =
     (case number_of_cells g of (nx, ny, nz) \<Rightarrow>
        (case opt of
           Normal \<Rightarrow>
             concat (map (\<lambda>z. concat (map (\<lambda>y. map (\<lambda>x. (x, y, z)) [0..nx - 1]) [0..ny - 1]))
               [0..nz - 1])
         | PeriodicBoundaries \<Rightarrow>
             concat (map (\<lambda>z. concat (map (\<lambda>y. map (\<lambda>x. (x, y, z)) [1..nx - 2]) [1..ny - 2]))
               [0..nz - 2])))"

section \<open>Pairs delivered by the traversal\<close>




section \<open>Ghost cells and their mirrors\<close>

text \<open>
  The interior cell a ghost cell at \<open>(x, y, z)\<close> is copied from (the cell whose linear index
  is \<^verbatim>\<open>copy_idx\<close>), the shift its particles get, and the shift applied to a cell.
\<close>

definition mirror_cell :: "Grid \<Rightarrow> int \<times> int \<times> int \<Rightarrow> int \<times> int \<times> int" where
  "mirror_cell g c =
     (case (number_of_cells g, c) of ((nx, ny, nz), (x, y, z)) \<Rightarrow>
        ((if x = 0 then nx - 2 else if x = nx - 1 then 1 else x),
         (if y = 0 then ny - 2 else if y = ny - 1 then 1 else y),
         (if z = nz - 1 then 0 else z)))"

definition ghost_shift :: "Grid \<Rightarrow> real array3 \<Rightarrow> int \<times> int \<times> int \<Rightarrow> FourVector" where
  "ghost_shift g len c =
     (case (number_of_cells g, len, c) of ((nx, ny, nz), (len0, len1, len2), (x, y, z)) \<Rightarrow>
        \<lparr>x0 = 0,
         x1 = (if x = 0 then - len0 else if x = nx - 1 then len0 else 0),
         x2 = (if y = 0 then - len1 else if y = ny - 1 then len1 else 0),
         x3 = (if z = nz - 1 then len2 else 0)\<rparr>)"

definition shift_cell :: "FourVector \<Rightarrow> ParticleList \<Rightarrow> ParticleList" where
  "shift_cell s l = map (\<lambda>p. set_4position (fv_plus (position p) s) p) l"

definition unshift_cell :: "FourVector \<Rightarrow> ParticleList \<Rightarrow> ParticleList" where
  "unshift_cell s l = map (\<lambda>p. set_4position (fv_minus (position p) s) p) l"

definition cell_at :: "Grid \<Rightarrow> int \<times> int \<times> int \<Rightarrow> ParticleList" where
  "cell_at g c = (case c of (x, y, z) \<Rightarrow> cells g ! nat (make_index g x y z))"

section \<open>Facts about the geometry resolution\<close>

lemma floor_root3_unique:
  fixes k :: int
  assumes "0 \<le> k" "k ^ 3 \<le> int n" "int n < (k + 1) ^ 3"
  shows "\<lfloor>root 3 (real n)\<rfloor> = k"
proof -
  have a: "real_of_int k = root 3 (real_of_int k ^ 3)"
    using assms(1) by (simp add: real_root_power_cancel)
  have b: "real_of_int (k + 1) = root 3 (real_of_int (k + 1) ^ 3)"
    using assms(1) by (simp add: real_root_power_cancel)
  have c: "real_of_int k ^ 3 \<le> real n"
  proof -
    have "real_of_int (k ^ 3) \<le> real_of_int (int n)" using assms(2) by (simp only: of_int_le_iff)
    then show ?thesis by simp
  qed
  have d: "real n < real_of_int (k + 1) ^ 3"
  proof -
    have "real_of_int (int n) < real_of_int ((k + 1) ^ 3)" using assms(3) by (simp only: of_int_less_iff)
    then show ?thesis by simp
  qed
  have "real_of_int k \<le> root 3 (real n)"
    by (subst a) (simp only: real_root_le_iff c zero_less_numeral)
  moreover have "root 3 (real n) < real_of_int (k + 1)"
    by (subst b) (simp only: real_root_less_iff d zero_less_numeral)
  ultimately show ?thesis by (simp add: floor_eq_iff)
qed

lemma static_cast_int_nonneg:
  assumes "static_cast_int v = Some t" "0 \<le> v"
  shows "t = \<lfloor>v\<rfloor>"
  using assms by (simp add: static_cast_int_def Let_def split: if_splits)

lemma static_cast_int_of_int:
  assumes "static_cast_int (real_of_int k) = Some c"
  shows "c = k"
  using assms by (simp add: static_cast_int_def Let_def split: if_splits)

lemma resolve_axis_Some:
  assumes "resolve_axis mc l a b = Some (n, f)"
  shows "(n, f) =
           (if max 1 \<lceil>(b - a) * (1 / l)\<rceil> > mc
            then (mc, (real_of_int mc - 1/10) / (b - a))
            else (max 1 \<lceil>(b - a) * (1 / l)\<rceil>, 1 / l))"
proof -
  from assms obtain c where c: "static_cast_int (real_of_int \<lceil>(b - a) * (1 / l)\<rceil>) = Some c"
    by (auto simp: resolve_axis_def Let_def split: option.splits)
  have "c = \<lceil>(b - a) * (1 / l)\<rceil>" by (rule static_cast_int_of_int [OF c])
  with assms c show ?thesis
    by (auto simp: resolve_axis_def Let_def split: if_splits)
qed

lemma resolve_axis_range:
  assumes "resolve_axis mc l a b = Some (n, f)"
  shows "n \<le> mc \<and> (1 \<le> mc \<longrightarrow> 1 \<le> n) \<and> (mc \<le> 0 \<longrightarrow> n = mc)"
  using resolve_axis_Some [OF assms] by (auto split: if_splits)

lemma resolve_axis_bounds:
  assumes "1 \<le> mc" "resolve_axis mc l a b = Some (n, f)"
  shows "1 \<le> n \<and> n \<le> mc"
  using resolve_axis_range [OF assms(2)] assms(1) by simp

lemma resolve_geometry_Some:
  assumes "resolve_geometry std_cbrt n (a0, a1, a2) (b0, b1, b2) = Some ((n0, n1, n2), (f0, f1, f2))"
  shows "\<exists>mc. static_cast_int (std_cbrt (real n)) = Some mc \<and>
              resolve_axis mc (5/2) a0 b0 = Some (n0, f0) \<and>
              resolve_axis mc (5/2) a1 b1 = Some (n1, f1) \<and>
              resolve_axis mc (5/2) a2 b2 = Some (n2, f2)"
  using assms
  by (auto simp: resolve_geometry_def max_interaction_length_def split: option.splits)

lemma resolve_geometry_le_2:
  assumes rg: "resolve_geometry std_cbrt n (a0, a1, a2) (b0, b1, b2) = Some ((n0, n1, n2), fs)"
    and nd: "\<not> (n0 \<le> 2 \<and> n1 \<le> 2 \<and> n2 \<le> 2)"
  shows "1 \<le> n0 \<and> 1 \<le> n1 \<and> 1 \<le> n2"
proof -
  obtain f0 f1 f2 where fs: "fs = (f0, f1, f2)" by (metis prod.exhaust)
  from resolve_geometry_Some [OF rg [unfolded fs]] obtain mc where
    r: "resolve_axis mc (5/2) a0 b0 = Some (n0, f0)" "resolve_axis mc (5/2) a1 b1 = Some (n1, f1)"
       "resolve_axis mc (5/2) a2 b2 = Some (n2, f2)"
    by blast
  from nd resolve_axis_range [OF r(1)] resolve_axis_range [OF r(2)] resolve_axis_range [OF r(3)]
  have "1 \<le> mc" by linarith
  with resolve_axis_range [OF r(1)] resolve_axis_range [OF r(2)] resolve_axis_range [OF r(3)]
  show ?thesis by simp
qed

section \<open>The fill loops keep the geometry\<close>

lemma same_geometry_refl: "same_geometry g g"
  by (simp add: same_geometry_def)

lemma same_geometry_trans: "same_geometry g g' \<Longrightarrow> same_geometry g' g'' \<Longrightarrow> same_geometry g g''"
  by (simp add: same_geometry_def)

lemma same_geometry_cells_update:
  "length cs = length (cells g) \<Longrightarrow> same_geometry g (g\<lparr>cells := cs\<rparr>)"
  by (simp add: same_geometry_def)

lemma make_index_same: "same_geometry g g' \<Longrightarrow> make_index g' x y z = make_index g x y z"
  by (simp add: same_geometry_def make_index_def)

lemma make_index_pos_same:
  "same_geometry g g' \<Longrightarrow> make_index_pos opt g' v = make_index_pos opt g v"
  by (simp add: same_geometry_def make_index_pos_def make_index_def
      split: prod.splits GridOptions.splits)

lemma fill_normal_same: "fill_normal g ps = Inr g' \<Longrightarrow> same_geometry g g'"
proof (induction ps arbitrary: g)
  case Nil
  then show ?case by (simp add: same_geometry_refl)
next
  case (Cons p ps)
  let ?idx = "make_index_pos Normal g (threevec (position p))"
  let ?g1 = "g\<lparr>cells := push_back p ?idx (cells g)\<rparr>"
  from Cons.prems have ok: "fill_normal ?g1 ps = Inr g'"
    by (simp add: Let_def split: if_splits)
  have "same_geometry g ?g1"
    by (rule same_geometry_cells_update) (simp add: push_back_def)
  with Cons.IH [OF ok] show ?case by (blast intro: same_geometry_trans)
qed

lemma fill_non_ghost_same: "fill_non_ghost g ps = Inr g' \<Longrightarrow> same_geometry g g'"
proof (induction ps arbitrary: g)
  case Nil
  then show ?case by (simp add: same_geometry_refl)
next
  case (Cons p ps)
  let ?idx = "make_index_pos PeriodicBoundaries g (threevec (position p))"
  let ?g1 = "g\<lparr>cells := push_back p ?idx (cells g)\<rparr>"
  from Cons.prems have ok: "fill_non_ghost ?g1 ps = Inr g'"
    by (simp add: Let_def split: if_splits prod.splits)
  have "same_geometry g ?g1"
    by (rule same_geometry_cells_update) (simp add: push_back_def)
  with Cons.IH [OF ok] show ?case by (blast intro: same_geometry_trans)
qed

lemma fill_ghost_cell_same: "same_geometry g (fill_ghost_cell len z y x g)"
  by (simp add: fill_ghost_cell_def same_geometry_def Let_def split: prod.splits)

lemma fold_same_geometry:
  assumes "\<And>x h. same_geometry h (f x h)"
  shows "same_geometry g (fold f xs g)"
proof (induction xs arbitrary: g)
  case Nil
  show ?case by (simp add: same_geometry_refl)
next
  case (Cons x xs)
  have "same_geometry g (f x g)" by (rule assms)
  moreover have "same_geometry (f x g) (fold f xs (f x g))" by (rule Cons.IH)
  ultimately show ?case by (simp add: same_geometry_trans)
qed

lemma fill_ghost_cells_same: "same_geometry g (fill_ghost_cells len g)"
  unfolding fill_ghost_cells_def
  by (simp split: prod.splits)
     (intro allI impI fold_same_geometry fill_ghost_cell_same)

section \<open>The shape chosen by the constructor\<close>

lemma resolve_axis_spec:
  assumes mc: "static_cast_int (std_cbrt (real n)) = Some mc" and nn: "0 \<le> std_cbrt (real n)"
    and ra: "resolve_axis mc (5/2) a b = Some (k, f)"
  shows "(k, f) = spec_resolve_axis std_cbrt n a b"
proof -
  have "mc = \<lfloor>std_cbrt (real n)\<rfloor>" by (rule static_cast_int_nonneg [OF mc nn])
  with resolve_axis_Some [OF ra] show ?thesis
    by (simp add: spec_resolve_axis_def Let_def)
qed

lemma find_min_max_nonempty: "find_min_max_positions ps = Inr mm \<Longrightarrow> ps \<noteq> []"
  by (cases ps) simp_all

lemma Grid_init_periodic:
  assumes "ps \<noteq> []"
    and "resolve_geometry std_cbrt (length ps) (a0, a1, a2) (b0, b1, b2) = Some ((n0, n1, n2), fs)"
  shows "Grid_init std_cbrt PeriodicBoundaries ps ((a0, a1, a2), (b0, b1, b2)) =
     (case fill_non_ghost
        \<lparr>min_position = (a0, a1, a2), index_factor = fs,
         number_of_cells = (n0 + 2, n1 + 2, n2 + 1),
         cells = replicate (nat ((n0 + 2) * (n1 + 2) * (n2 + 1))) []\<rparr> ps of
        Inl e \<Rightarrow> Inl e
      | Inr g \<Rightarrow> Inr (fill_ghost_cells (b0 - a0, b1 - a1, b2 - a2) g))"
  using assms by (simp add: Grid_init_def Let_def)

lemma Grid_init_normal:
  assumes "ps \<noteq> []"
    and "resolve_geometry std_cbrt (length ps) (a0, a1, a2) (b0, b1, b2) = Some ((n0, n1, n2), fs)"
  shows "Grid_init std_cbrt Normal ps ((a0, a1, a2), (b0, b1, b2)) =
     (if n0 \<le> 2 \<and> n1 \<le> 2 \<and> n2 \<le> 2
      then Inr \<lparr>min_position = (a0, a1, a2), index_factor = fs,
                number_of_cells = (1, 1, 1), cells = [ps]\<rparr>
      else fill_normal
        \<lparr>min_position = (a0, a1, a2), index_factor = fs,
         number_of_cells = (n0, n1, n2),
         cells = replicate (nat (n0 * n1 * n2)) []\<rparr> ps)"
  using assms by (simp add: Grid_init_def Let_def)

lemma Grid_new_init:
  "find_min_max_positions ps = Inr mm \<Longrightarrow> Grid_new std_cbrt opt ps = Grid_init std_cbrt opt ps mm"
  by (simp add: Grid_new_def)

lemma Grid_init_geometry:
  assumes ok: "Grid_init std_cbrt opt ps ((a0, a1, a2), (b0, b1, b2)) = Inr g"
    and rg: "resolve_geometry std_cbrt (length ps) (a0, a1, a2) (b0, b1, b2) = Some ((n0, n1, n2), fs)"
  shows "min_position g = (a0, a1, a2) \<and> index_factor g = fs \<and>
         number_of_cells g =
           (if opt = PeriodicBoundaries then (n0 + 2, n1 + 2, n2 + 1)
            else if n0 \<le> 2 \<and> n1 \<le> 2 \<and> n2 \<le> 2 then (1, 1, 1) else (n0, n1, n2)) \<and>
         length (cells g) =
           (if opt = PeriodicBoundaries then nat ((n0 + 2) * (n1 + 2) * (n2 + 1))
            else if n0 \<le> 2 \<and> n1 \<le> 2 \<and> n2 \<le> 2 then 1 else nat (n0 * n1 * n2))"
proof -
  have ne: "ps \<noteq> []" using ok by (auto simp: Grid_init_def)
  show ?thesis
  proof (cases opt)
    case Normal
    show ?thesis
    proof (cases "n0 \<le> 2 \<and> n1 \<le> 2 \<and> n2 \<le> 2")
      case True
      with ok Normal show ?thesis by (auto simp: Grid_init_normal [OF ne rg])
    next
      case False
      with ok Normal have "fill_normal
        \<lparr>min_position = (a0, a1, a2), index_factor = fs,
         number_of_cells = (n0, n1, n2),
         cells = replicate (nat (n0 * n1 * n2)) []\<rparr> ps = Inr g"
        by (simp add: Grid_init_normal [OF ne rg])
      from fill_normal_same [OF this] False Normal show ?thesis
        by (auto simp: same_geometry_def)
    qed
  next
    case PeriodicBoundaries
    let ?g0 = "\<lparr>min_position = (a0, a1, a2), index_factor = fs,
         number_of_cells = (n0 + 2, n1 + 2, n2 + 1),
         cells = replicate (nat ((n0 + 2) * (n1 + 2) * (n2 + 1))) []\<rparr>"
    from ok PeriodicBoundaries obtain g1 where
      g1: "fill_non_ghost ?g0 ps = Inr g1"
      and g: "g = fill_ghost_cells (b0 - a0, b1 - a1, b2 - a2) g1"
      by (auto simp: Grid_init_periodic [OF ne rg] split: sum.splits)
    have "same_geometry ?g0 g"
      unfolding g
      by (rule same_geometry_trans [OF fill_non_ghost_same [OF g1] fill_ghost_cells_same])
    with PeriodicBoundaries show ?thesis by (simp add: same_geometry_def)
  qed
qed

section \<open>Errors of the deformed nucleus\<close>

lemma y_l_0_value:
  assumes "l = 2 \<or> l = 4"
  shows "\<exists>v. y_l_0 l cosx = Inr v"
proof (cases "l = 2")
  case True
  show ?thesis unfolding y_l_0_def by (subst if_P [OF True]) blast
next
  case False
  with assms have l4: "l = 4" by simp
  show ?thesis unfolding y_l_0_def
    by (subst if_not_P [OF False], subst if_P [OF l4]) blast
qed

lemma y_l_0_error:
  assumes "l \<noteq> 2" "l \<noteq> 4"
  shows "\<exists>e. y_l_0 l cosx = Inl e"
  unfolding y_l_0_def
  by (subst if_not_P [OF assms(1)], subst if_not_P [OF assms(2)]) blast

lemma y_l_0_iff:
  "((\<exists>v. y_l_0 l cosx = Inr v) \<longleftrightarrow> l = 2 \<or> l = 4) \<and>
   ((\<exists>e. y_l_0 l cosx = Inl e) \<longleftrightarrow> \<not> (l = 2 \<or> l = 4))"
  using y_l_0_value [of l cosx] y_l_0_error [of l cosx] by (cases "l = 2 \<or> l = 4") auto

text \<open>
  Claim C9.  \<^verbatim>\<open>DeformedNucleus::y_l_0\<close> returns a value for \<open>l = 2\<close> and \<open>l = 4\<close> and
  raises the domain error for every other \<open>l\<close>.  When the inherited
  \<^verbatim>\<open>Nucleus::set_parameters_automatic\<close> returns, \<^verbatim>\<open>DeformedNucleus::set_parameters_automatic\<close>
  raises the domain error if and only if the number of nucleons is none of 238, 208, 197
  and 63, and returns otherwise.
\<close>

theorem y_l_0_and_automatic_parameters:
  "((\<exists>v. y_l_0 l cosx = Inr v) \<longleftrightarrow> l = 2 \<or> l = 4) \<and>
   ((\<exists>e. y_l_0 l cosx = Inl e) \<longleftrightarrow> \<not> (l = 2 \<or> l = 4)) \<and>
   (base (nucleus d) = Inr n \<longrightarrow>
      ((\<exists>e. set_parameters_automatic base count orientation d = Inl e) \<longleftrightarrow>
         count n \<notin> {238, 208, 197, 63}) \<and>
      ((\<exists>d'. set_parameters_automatic base count orientation d = Inr d') \<longleftrightarrow>
         count n \<in> {238, 208, 197, 63}))"
  using y_l_0_iff [of l cosx]
  by (auto simp: set_parameters_automatic_def set_beta_2_def set_beta_4_def Let_def)

theorem y_l_0_and_automatic_parameters_witness:
  "((\<exists>e. set_parameters_automatic Inr length (0, 0)
          \<lparr>nucleus = line 64 1, beta2 = 0, beta4 = 0, nuclear_orientation = (0, 0)\<rparr> = Inl e)
    \<and> length (line 64 1) \<notin> {238, 208, 197, 63})
   \<and> ((\<exists>d'. set_parameters_automatic Inr length (0, 0)
          \<lparr>nucleus = line 63 1, beta2 = 0, beta4 = 0, nuclear_orientation = (0, 0)\<rparr> = Inr d')
    \<and> length (line 63 1) \<in> {238, 208, 197, 63})
   \<and> (\<exists>e. y_l_0 3 (1/2) = Inl e) \<and> (\<exists>v. y_l_0 4 (1/2) = Inr v)"
  using y_l_0_and_automatic_parameters [of 3 "1/2" Inr
      "\<lparr>nucleus = line 64 1, beta2 = 0, beta4 = 0, nuclear_orientation = (0, 0)\<rparr>"
      "line 64 1" length "(0, 0)"]
    y_l_0_and_automatic_parameters [of 4 "1/2" Inr
      "\<lparr>nucleus = line 63 1, beta2 = 0, beta4 = 0, nuclear_orientation = (0, 0)\<rparr>"
      "line 63 1" length "(0, 0)"]
  by (simp add: line_def)

section \<open>The bucketing loops\<close>

lemma out_of_bounds_same:
  assumes sg: "same_geometry g g'"
  shows "out_of_bounds opt g' p = out_of_bounds opt g p"
proof -
  have 1: "\<And>v. make_index_pos opt g' v = make_index_pos opt g v"
    by (rule make_index_pos_same [OF sg])
  have 2: "make_index g' = make_index g"
    by (intro ext) (rule make_index_same [OF sg])
  have 3: "number_of_cells g' = number_of_cells g" "length (cells g') = length (cells g)"
    using sg by (simp_all add: same_geometry_def)
  show ?thesis by (simp add: out_of_bounds_def 1 2 3 Let_def split: GridOptions.splits)
qed

lemma bucket_same: "same_geometry g g' \<Longrightarrow> bucket opt g' p cs = bucket opt g p cs"
  by (simp add: bucket_def make_index_pos_same)

lemma length_bucket: "length (bucket opt g p cs) = length cs"
  by (simp add: bucket_def push_back_def)

lemma fill_normal_step:
  "fill_normal g (p # ps) =
     (if out_of_bounds Normal g p
      then Inl (OutOfBounds p (make_index_pos Normal g (threevec (position p))) (cells g))
      else fill_normal (g\<lparr>cells := bucket Normal g p (cells g)\<rparr>) ps)"
  by (simp add: out_of_bounds_def bucket_def Let_def)

lemma fill_non_ghost_step:
  "fill_non_ghost g (p # ps) =
     (if out_of_bounds PeriodicBoundaries g p
      then Inl (OutOfBounds p (make_index_pos PeriodicBoundaries g (threevec (position p)))
                  (cells g))
      else fill_non_ghost (g\<lparr>cells := bucket PeriodicBoundaries g p (cells g)\<rparr>) ps)"
  by (simp add: out_of_bounds_def bucket_def Let_def split: prod.splits)

lemma fill_normal_cells: "fill_normal g ps = fill_cells Normal g ps"
  by (induction ps arbitrary: g) (simp_all only: fill_normal_step fill_cells.simps fill_normal.simps)

lemma fill_non_ghost_cells: "fill_non_ghost g ps = fill_cells PeriodicBoundaries g ps"
  by (induction ps arbitrary: g)
     (simp_all only: fill_non_ghost_step fill_cells.simps fill_non_ghost.simps)

lemma same_geometry_bucket: "same_geometry g (g\<lparr>cells := bucket opt g p (cells g)\<rparr>)"
  by (rule same_geometry_cells_update) (rule length_bucket)

lemma fill_cells_ok:
  "fill_cells opt g ps = Inr g' \<longleftrightarrow>
     (\<forall>p \<in> set ps. \<not> out_of_bounds opt g p) \<and>
     g' = g\<lparr>cells := fold (bucket opt g) ps (cells g)\<rparr>"
proof (induction ps arbitrary: g)
  case Nil
  show ?case by auto
next
  case (Cons p ps)
  let ?g1 = "g\<lparr>cells := bucket opt g p (cells g)\<rparr>"
  have sg: "same_geometry g ?g1" by (rule same_geometry_bucket)
  have b: "bucket opt ?g1 = bucket opt g"
    by (intro ext) (rule bucket_same [OF sg])
  show ?case
    unfolding fill_cells.simps
    by (simp add: Cons.IH out_of_bounds_same [OF sg] b)
qed

lemma fill_cells_error:
  "fill_cells opt g ps = Inl e \<longleftrightarrow>
     (\<exists>pre p post. ps = pre @ p # post \<and> (\<forall>q \<in> set pre. \<not> out_of_bounds opt g q) \<and>
        out_of_bounds opt g p \<and>
        e = OutOfBounds p (make_index_pos opt g (threevec (position p)))
              (fold (bucket opt g) pre (cells g)))"
proof (induction ps arbitrary: g)
  case Nil
  show ?case by simp
next
  case (Cons p ps)
  let ?g1 = "g\<lparr>cells := bucket opt g p (cells g)\<rparr>"
  have sg: "same_geometry g ?g1" by (rule same_geometry_bucket)
  have b: "bucket opt ?g1 = bucket opt g"
    by (intro ext) (rule bucket_same [OF sg])
  have ix: "\<And>v. make_index_pos opt ?g1 v = make_index_pos opt g v"
    by (rule make_index_pos_same [OF sg])
  show ?case
  proof (cases "out_of_bounds opt g p")
    case True
    have "fill_cells opt g (p # ps) = Inl e \<longleftrightarrow>
            e = OutOfBounds p (make_index_pos opt g (threevec (position p))) (cells g)"
      unfolding fill_cells.simps using True by auto
    also have "\<dots> \<longleftrightarrow> (\<exists>pre q post. p # ps = pre @ q # post \<and>
        (\<forall>r \<in> set pre. \<not> out_of_bounds opt g r) \<and> out_of_bounds opt g q \<and>
        e = OutOfBounds q (make_index_pos opt g (threevec (position q)))
              (fold (bucket opt g) pre (cells g)))"
    proof
      assume "e = OutOfBounds p (make_index_pos opt g (threevec (position p))) (cells g)"
      with True show "\<exists>pre q post. p # ps = pre @ q # post \<and>
        (\<forall>r \<in> set pre. \<not> out_of_bounds opt g r) \<and> out_of_bounds opt g q \<and>
        e = OutOfBounds q (make_index_pos opt g (threevec (position q)))
              (fold (bucket opt g) pre (cells g))"
        by (intro exI [of _ "[]"] exI [of _ p] exI [of _ ps]) simp
    next
      assume "\<exists>pre q post. p # ps = pre @ q # post \<and>
        (\<forall>r \<in> set pre. \<not> out_of_bounds opt g r) \<and> out_of_bounds opt g q \<and>
        e = OutOfBounds q (make_index_pos opt g (threevec (position q)))
              (fold (bucket opt g) pre (cells g))"
      then obtain pre q post where h: "p # ps = pre @ q # post"
        "\<forall>r \<in> set pre. \<not> out_of_bounds opt g r" "out_of_bounds opt g q"
        "e = OutOfBounds q (make_index_pos opt g (threevec (position q)))
              (fold (bucket opt g) pre (cells g))"
        by blast
      have "pre = []"
      proof (cases pre)
        case Nil
        then show ?thesis .
      next
        case (Cons r rs)
        with h(1) have "r = p" by simp
        with Cons h(2) True show ?thesis by simp
      qed
      with h show "e = OutOfBounds p (make_index_pos opt g (threevec (position p))) (cells g)"
        by simp
    qed
    finally show ?thesis .
  next
    case False
    have "fill_cells opt g (p # ps) = Inl e \<longleftrightarrow> fill_cells opt ?g1 ps = Inl e"
      unfolding fill_cells.simps using False by simp
    also have "\<dots> \<longleftrightarrow> (\<exists>pre q post. ps = pre @ q # post \<and>
        (\<forall>r \<in> set pre. \<not> out_of_bounds opt g r) \<and> out_of_bounds opt g q \<and>
        e = OutOfBounds q (make_index_pos opt g (threevec (position q)))
              (fold (bucket opt g) (p # pre) (cells g)))"
      by (simp add: Cons.IH out_of_bounds_same [OF sg] b ix)
    also have "\<dots> \<longleftrightarrow> (\<exists>pre q post. p # ps = pre @ q # post \<and>
        (\<forall>r \<in> set pre. \<not> out_of_bounds opt g r) \<and> out_of_bounds opt g q \<and>
        e = OutOfBounds q (make_index_pos opt g (threevec (position q)))
              (fold (bucket opt g) pre (cells g)))"
      (is "?L \<longleftrightarrow> ?R")
    proof
      assume ?L
      then obtain pre q post where h: "ps = pre @ q # post"
        "\<forall>r \<in> set pre. \<not> out_of_bounds opt g r" "out_of_bounds opt g q"
        "e = OutOfBounds q (make_index_pos opt g (threevec (position q)))
              (fold (bucket opt g) (p # pre) (cells g))"
        by blast
      with False show ?R
        by (intro exI [of _ "p # pre"] exI [of _ q] exI [of _ post]) simp
    next
      assume ?R
      then obtain pre q post where h: "p # ps = pre @ q # post"
        "\<forall>r \<in> set pre. \<not> out_of_bounds opt g r" "out_of_bounds opt g q"
        "e = OutOfBounds q (make_index_pos opt g (threevec (position q)))
              (fold (bucket opt g) pre (cells g))"
        by blast
      show ?L
      proof (cases pre)
        case Nil
        with h(1) have "q = p" by simp
        with h(3) False show ?thesis by simp
      next
        case (Cons r rs)
        with h(1) have "r = p" "ps = rs @ q # post" by simp_all
        with Cons h show ?thesis
          by (intro exI [of _ rs] exI [of _ q] exI [of _ post]) simp
      qed
    qed
    finally show ?thesis .
  qed
qed

section \<open>Geometry resolution, grid shape and the dilute limit\<close>

lemma resolve_geometry_spec:
  assumes rg: "resolve_geometry std_cbrt n (a0, a1, a2) (b0, b1, b2) = Some ((n0, n1, n2), (f0, f1, f2))"
    and lib: "1 \<le> std_cbrt (real n)"
  shows "(n0, f0) = spec_resolve_axis std_cbrt n a0 b0 \<and>
         (n1, f1) = spec_resolve_axis std_cbrt n a1 b1 \<and>
         (n2, f2) = spec_resolve_axis std_cbrt n a2 b2 \<and>
         1 \<le> n0 \<and> n0 \<le> \<lfloor>std_cbrt (real n)\<rfloor> \<and>
         1 \<le> n1 \<and> n1 \<le> \<lfloor>std_cbrt (real n)\<rfloor> \<and>
         1 \<le> n2 \<and> n2 \<le> \<lfloor>std_cbrt (real n)\<rfloor>"
proof -
  from resolve_geometry_Some [OF rg] obtain mc where
    mc: "static_cast_int (std_cbrt (real n)) = Some mc"
    and r: "resolve_axis mc (5/2) a0 b0 = Some (n0, f0)" "resolve_axis mc (5/2) a1 b1 = Some (n1, f1)"
       "resolve_axis mc (5/2) a2 b2 = Some (n2, f2)"
    by blast
  have nn: "0 \<le> std_cbrt (real n)" using lib by simp
  have fl: "mc = \<lfloor>std_cbrt (real n)\<rfloor>" by (rule static_cast_int_nonneg [OF mc nn])
  have "1 \<le> \<lfloor>std_cbrt (real n)\<rfloor>" using lib by simp
  then have m1: "1 \<le> mc" by (simp add: fl)
  from resolve_axis_bounds [OF m1 r(1)] resolve_axis_bounds [OF m1 r(2)]
    resolve_axis_bounds [OF m1 r(3)]
    resolve_axis_spec [where std_cbrt = std_cbrt and n = n, OF mc nn r(1)]
    resolve_axis_spec [where std_cbrt = std_cbrt and n = n, OF mc nn r(2)]
    resolve_axis_spec [where std_cbrt = std_cbrt and n = n, OF mc nn r(3)]
  show ?thesis by (simp add: fl)
qed

text \<open>
  Claim C3, amended.  For a non-empty particle set with bounding box \<open>(a, b)\<close>, when the
  conversions to \<^verbatim>\<open>int\<close> are defined and the library's cube root of the particle count
  \<open>N\<close> is at least 1, the geometry resolution of the constructor is the one the
  specification describes with \<open>max_cells\<close> the truncated library result: per axis the index
  factor is \<open>1 / 2.5\<close> and the count is \<open>max 1 \<lceil>(b\<^sub>i - a\<^sub>i) * factor\<rceil>\<close>, and a count above
  \<open>max_cells\<close> is replaced by \<open>max_cells\<close> with the factor \<open>(max_cells - 0.1) / (b\<^sub>i - a\<^sub>i)\<close>.
  The resolved count of an axis is at least 1 and at most \<open>max_cells\<close>; it is at most
  \<open>\<lfloor>\<^sup>3\<surd>N\<rfloor>\<close> when the library's result is below \<open>\<lfloor>\<^sup>3\<surd>N\<rfloor> + 1\<close>.  Every grid the
  constructor returns has the minimum corner, the resolved index factors and, as cell
  counts, the resolved counts (plus the ghost layers in periodic mode, and \<open>(1, 1, 1)\<close> in
  the dilute limit).
\<close>

theorem geometry_resolution:
  assumes mm: "find_min_max_positions ps = Inr ((a0, a1, a2), (b0, b1, b2))"
    and rg: "resolve_geometry std_cbrt (length ps) (a0, a1, a2) (b0, b1, b2) =
               Some ((n0, n1, n2), (f0, f1, f2))"
    and lib: "1 \<le> std_cbrt (real (length ps))"
  shows "(n0, f0) = spec_resolve_axis std_cbrt (length ps) a0 b0 \<and>
         (n1, f1) = spec_resolve_axis std_cbrt (length ps) a1 b1 \<and>
         (n2, f2) = spec_resolve_axis std_cbrt (length ps) a2 b2 \<and>
         1 \<le> n0 \<and> n0 \<le> \<lfloor>std_cbrt (real (length ps))\<rfloor> \<and>
         1 \<le> n1 \<and> n1 \<le> \<lfloor>std_cbrt (real (length ps))\<rfloor> \<and>
         1 \<le> n2 \<and> n2 \<le> \<lfloor>std_cbrt (real (length ps))\<rfloor> \<and>
         (std_cbrt (real (length ps)) < real_of_int \<lfloor>root 3 (real (length ps))\<rfloor> + 1 \<longrightarrow>
            n0 \<le> \<lfloor>root 3 (real (length ps))\<rfloor> \<and> n1 \<le> \<lfloor>root 3 (real (length ps))\<rfloor> \<and>
            n2 \<le> \<lfloor>root 3 (real (length ps))\<rfloor>) \<and>
         (\<forall>opt g. Grid_new std_cbrt opt ps = Inr g \<longrightarrow>
            min_position g = (a0, a1, a2) \<and> index_factor g = (f0, f1, f2) \<and>
            number_of_cells g =
              (if opt = PeriodicBoundaries then (n0 + 2, n1 + 2, n2 + 1)
               else if n0 \<le> 2 \<and> n1 \<le> 2 \<and> n2 \<le> 2 then (1, 1, 1) else (n0, n1, n2)))"
proof -
  note s = resolve_geometry_spec [OF rg lib]
  have over: "n0 \<le> \<lfloor>root 3 (real (length ps))\<rfloor> \<and> n1 \<le> \<lfloor>root 3 (real (length ps))\<rfloor> \<and>
            n2 \<le> \<lfloor>root 3 (real (length ps))\<rfloor>"
    if "std_cbrt (real (length ps)) < real_of_int \<lfloor>root 3 (real (length ps))\<rfloor> + 1"
  proof -
    from that have "std_cbrt (real (length ps)) < real_of_int (\<lfloor>root 3 (real (length ps))\<rfloor> + 1)"
      by simp
    then have "\<lfloor>std_cbrt (real (length ps))\<rfloor> < \<lfloor>root 3 (real (length ps))\<rfloor> + 1"
      by (simp only: floor_less_iff)
    with s show ?thesis by linarith
  qed
  have built: "min_position g = (a0, a1, a2) \<and> index_factor g = (f0, f1, f2) \<and>
            number_of_cells g =
              (if opt = PeriodicBoundaries then (n0 + 2, n1 + 2, n2 + 1)
               else if n0 \<le> 2 \<and> n1 \<le> 2 \<and> n2 \<le> 2 then (1, 1, 1) else (n0, n1, n2))"
    if "Grid_new std_cbrt opt ps = Inr g" for opt g
  proof -
    from that have "Grid_init std_cbrt opt ps ((a0, a1, a2), (b0, b1, b2)) = Inr g"
      by (simp add: Grid_new_init [OF mm])
    from Grid_init_geometry [OF this rg] show ?thesis by simp
  qed
  from s over built show ?thesis by blast
qed

lemma min_max_line_8: "find_min_max_positions (line 8 1) = Inr ((0, 0, 0), (7, 0, 0))"
  by code_simp

lemma resolve_line_8:
  "resolve_geometry cbrt_sample (length (line 8 1)) (0, 0, 0) (7, 0, 0) =
     Some ((2, 1, 1), (19/70, 2/5, 2/5))"
  by code_simp

lemma cbrt_sample_line_8: "1 \<le> cbrt_sample (real (length (line 8 1)))"
  by code_simp

lemma periodic_line_8: "\<not> isl (Grid_new cbrt_sample PeriodicBoundaries (line 8 1))"
  by code_simp

lemma Inr_projr: "\<not> isl s \<Longrightarrow> s = Inr (projr s)"
  by (cases s) simp_all

theorem geometry_resolution_witness:
  "(2, 19/70) = spec_resolve_axis cbrt_sample (length (line 8 1)) 0 7 \<and>
   (1, 2/5) = spec_resolve_axis cbrt_sample (length (line 8 1)) 0 0 \<and>
   number_of_cells (projr (Grid_new cbrt_sample PeriodicBoundaries (line 8 1))) = (4, 3, 2) \<and>
   index_factor (projr (Grid_new cbrt_sample PeriodicBoundaries (line 8 1))) = (19/70, 2/5, 2/5)"
proof -
  note t = geometry_resolution [OF min_max_line_8 resolve_line_8 cbrt_sample_line_8]
  from t have "(2, 19/70) = spec_resolve_axis cbrt_sample (length (line 8 1)) 0 7"
    and "(1, 2/5) = spec_resolve_axis cbrt_sample (length (line 8 1)) 0 0"
    by blast+
  moreover from t Inr_projr [OF periodic_line_8]
  have "number_of_cells (projr (Grid_new cbrt_sample PeriodicBoundaries (line 8 1))) =
          (2 + 2, 1 + 2, 1 + 1) \<and>
        index_factor (projr (Grid_new cbrt_sample PeriodicBoundaries (line 8 1))) =
          (19/70, 2/5, 2/5)"
    by (metis (full_types))
  ultimately show ?thesis by simp
qed

text \<open>
  Claim C3 as stated takes \<open>max_cells\<close> to be \<open>\<lfloor>\<^sup>3\<surd>N\<rfloor>\<close>.  For \<open>N = 3375 = 15\<^sup>3\<close> the library
  returns \<open>15 - 2\<^sup>-\<^sup>4\<^sup>9\<close>, which truncates to 14: an axis of length 100 gets 14 cells and the
  factor \<open>13.9 / 100\<close>, where the specification's formula with the exact root gives 15.
\<close>

theorem geometry_resolution_counterexample:
  "static_cast_int (cbrt_sample (real (3375 :: nat))) = Some 14 \<and>
   \<lfloor>root 3 (real (3375 :: nat))\<rfloor> = 15 \<and>
   resolve_geometry cbrt_sample 3375 (0, 0, 0) (100, 0, 0) =
     Some ((14, 1, 1), (139/1000, 2/5, 2/5)) \<and>
   spec_resolve_axis (root 3) 3375 0 100 = (15, 149/1000)"
proof -
  have r: "\<lfloor>root 3 (real (3375 :: nat))\<rfloor> = 15"
    by (rule floor_root3_unique) simp_all
  have c: "cbrt_sample 3375 = 15 - 1 / 2 ^ 49"
    by (simp add: cbrt_sample_def)
  have fl: "\<lfloor>15 - 1 / 2 ^ 49 :: real\<rfloor> = 14"
    by (simp add: floor_eq_iff)
  have mc0: "static_cast_int (cbrt_sample 3375) = Some 14"
    unfolding c by (simp add: static_cast_int_def Let_def fl)
  have mc: "static_cast_int (cbrt_sample (real (3375 :: nat))) = Some 14"
    using mc0 by simp
  have x: "resolve_axis 14 (5/2) 0 100 = Some (14, 139/1000)"
    by (simp add: resolve_axis_def static_cast_int_def Let_def)
  have y: "resolve_axis 14 (5/2) 0 0 = Some (1, 2/5)"
    by (simp add: resolve_axis_def static_cast_int_def Let_def)
  have "resolve_geometry cbrt_sample 3375 (0, 0, 0) (100, 0, 0) =
     Some ((14, 1, 1), (139/1000, 2/5, 2/5))"
    by (simp add: resolve_geometry_def max_interaction_length_def mc0 x y)
  moreover have "spec_resolve_axis (root 3) 3375 0 100 = (15, 149/1000)"
    using r by (simp add: spec_resolve_axis_def Let_def)
  moreover note mc
  ultimately show ?thesis using r by blast
qed

lemma periodic_built_counts:
  assumes ok: "Grid_new std_cbrt PeriodicBoundaries ps = Inr g"
    and mm: "find_min_max_positions ps = Inr ((a0, a1, a2), (b0, b1, b2))"
    and rg: "resolve_geometry std_cbrt (length ps) (a0, a1, a2) (b0, b1, b2) = Some ((n0, n1, n2), fs)"
  shows "1 \<le> n0 \<and> 1 \<le> n1 \<and> 1 \<le> n2"
proof -
  obtain f0 f1 f2 where fs: "fs = (f0, f1, f2)" by (metis prod.exhaust)
  from resolve_geometry_Some [OF rg [unfolded fs]] obtain mc where
    r: "resolve_axis mc (5/2) a0 b0 = Some (n0, f0)" "resolve_axis mc (5/2) a1 b1 = Some (n1, f1)"
       "resolve_axis mc (5/2) a2 b2 = Some (n2, f2)"
    by blast
  note rr = resolve_axis_range [OF r(1)] resolve_axis_range [OF r(2)] resolve_axis_range [OF r(3)]
  let ?g0 = "\<lparr>min_position = (a0, a1, a2), index_factor = fs,
         number_of_cells = (n0 + 2, n1 + 2, n2 + 1),
         cells = replicate (nat ((n0 + 2) * (n1 + 2) * (n2 + 1))) []\<rparr>"
  have ne: "ps \<noteq> []" by (rule find_min_max_nonempty [OF mm])
  then obtain p qs where ps: "ps = p # qs" by (cases ps) auto
  from ok obtain g1 where "fill_non_ghost ?g0 ps = Inr g1"
    by (auto simp: Grid_new_init [OF mm] Grid_init_periodic [OF ne rg] split: sum.splits)
  then have "fill_cells PeriodicBoundaries ?g0 ps = Inr g1" by (simp add: fill_non_ghost_cells)
  then have nb: "\<not> out_of_bounds PeriodicBoundaries ?g0 p"
    unfolding fill_cells_ok by (simp add: ps)
  define i where "i = make_index_pos PeriodicBoundaries ?g0 (threevec (position p))"
  have hi: "make_index ?g0 (n0 + 2 - 1) (n1 + 2 - 1) (n2 + 1 - 1) = (n0 + 2) * (n1 + 2) * (n2 + 1) - 1"
    by (simp add: make_index_def algebra_simps)
  have lo: "make_index ?g0 1 1 0 = n0 + 3" by (simp add: make_index_def)
  from nb have "\<not> (i < make_index ?g0 1 1 0
            \<or> make_index ?g0 (n0 + 2 - 1) (n1 + 2 - 1) (n2 + 1 - 1) \<le> i
            \<or> (i < 0 \<or> int (length (cells ?g0)) \<le> i))"
    by (simp add: out_of_bounds_def Let_def i_def)
  then have b: "n0 + 3 \<le> i" "i < (n0 + 2) * (n1 + 2) * (n2 + 1) - 1" "0 \<le> i"
    unfolding hi lo by simp_all
  have "1 \<le> mc"
  proof (rule ccontr)
    assume "\<not> 1 \<le> mc"
    then have m: "mc \<le> 0" by simp
    with rr have n: "n0 = mc" "n1 = mc" "n2 = mc" by simp_all
    show False
    proof (cases "mc = 0")
      case True
      with b n show False by simp
    next
      case False
      with m have "mc + 1 \<le> 0" by simp
      have "0 \<le> (mc + 2) * (mc + 2)" by simp
      from this \<open>mc + 1 \<le> 0\<close> have "(mc + 2) * (mc + 2) * (mc + 1) \<le> 0"
        by (rule mult_nonneg_nonpos)
      with b n show False by simp
    qed
  qed
  with rr show ?thesis by simp
qed

text \<open>
  Claim C6.  A grid built in periodic mode has the resolved cell counts plus 2 on x, plus 2
  on y and plus 1 on z.  \<open>is_ghost_cell\<close> holds exactly when x or y is at the first or the
  last index or z is at the last index; a cell with inner x and y at z index 0 is never a
  ghost cell.
\<close>

theorem periodic_shape_and_ghost_cells:
  assumes "Grid_new std_cbrt PeriodicBoundaries ps = Inr g"
    and "find_min_max_positions ps = Inr ((a0, a1, a2), (b0, b1, b2))"
    and "resolve_geometry std_cbrt (length ps) (a0, a1, a2) (b0, b1, b2) = Some ((n0, n1, n2), fs)"
  shows "number_of_cells g = (n0 + 2, n1 + 2, n2 + 1) \<and>
         (\<forall>x y z. is_ghost_cell g x y z \<longleftrightarrow>
            x = 0 \<or> x = n0 + 1 \<or> y = 0 \<or> y = n1 + 1 \<or> z = n2) \<and>
         (\<forall>x y. 0 < x \<and> x < n0 + 1 \<and> 0 < y \<and> y < n1 + 1 \<longrightarrow> \<not> is_ghost_cell g x y 0)"
proof -
  have init: "Grid_init std_cbrt PeriodicBoundaries ps ((a0, a1, a2), (b0, b1, b2)) = Inr g"
    using assms(1) by (simp add: Grid_new_init [OF assms(2)])
  from Grid_init_geometry [OF init assms(3)]
  have nc: "number_of_cells g = (n0 + 2, n1 + 2, n2 + 1)" by simp
  from periodic_built_counts [OF assms] have "1 \<le> n2" by simp
  with nc show ?thesis by (auto simp: is_ghost_cell_def)
qed

lemma min_max_line_1: "find_min_max_positions (line 1 1) = Inr ((0, 0, 0), (0, 0, 0))"
  by code_simp

lemma resolve_line_1:
  "resolve_geometry cbrt_sample (length (line 1 1)) (0, 0, 0) (0, 0, 0) = Some ((1, 1, 1), (2/5, 2/5, 2/5))"
  by code_simp

lemma periodic_line_1: "\<not> isl (Grid_new cbrt_sample PeriodicBoundaries (line 1 1))"
  by code_simp

theorem periodic_shape_and_ghost_cells_witness:
  "number_of_cells (projr (Grid_new cbrt_sample PeriodicBoundaries (line 1 1))) = (3, 3, 2) \<and>
   is_ghost_cell (projr (Grid_new cbrt_sample PeriodicBoundaries (line 1 1))) 1 1 1 \<and>
   \<not> is_ghost_cell (projr (Grid_new cbrt_sample PeriodicBoundaries (line 1 1))) 1 1 0"
  using periodic_shape_and_ghost_cells
    [OF Inr_projr [OF periodic_line_1] min_max_line_1 resolve_line_1]
  by simp

text \<open>
  Claim C4, amended to the open mode.  If every axis resolves to at most 2 cells, the
  constructor in mode \<open>Normal\<close> returns the grid with cell counts \<open>(1, 1, 1)\<close> and one
  cell holding all particles, and the traversal makes exactly one call, with all particles
  as the home list and no neighbours.
\<close>

theorem dilute_fallback_open_mode:
  assumes "find_min_max_positions ps = Inr ((a0, a1, a2), (b0, b1, b2))"
    and "resolve_geometry std_cbrt (length ps) (a0, a1, a2) (b0, b1, b2) = Some ((n0, n1, n2), fs)"
    and "n0 \<le> 2" and "n1 \<le> 2" and "n2 \<le> 2"
  shows "\<exists>g. Grid_new std_cbrt Normal ps = Inr g \<and> number_of_cells g = (1, 1, 1) \<and>
             cells g = [ps] \<and> iterate_cells Normal g = [(ps, [])]"
proof -
  let ?g = "\<lparr>min_position = (a0, a1, a2), index_factor = fs,
             number_of_cells = (1, 1, 1), cells = [ps]\<rparr>"
  have ne: "ps \<noteq> []" by (rule find_min_max_nonempty [OF assms(1)])
  have "Grid_new std_cbrt Normal ps = Inr ?g"
    using assms(3-5)
    by (simp add: Grid_new_init [OF assms(1)] Grid_init_normal [OF ne assms(2)])
  moreover have "iterate_cells_idx Normal ?g = [(0, [])]"
    by (simp add: iterate_cells_idx_def build_neighbors_with_z_def
        build_neighbors_with_zy_def call_closure_def make_index_def)
  then have "iterate_cells Normal ?g = [(ps, [])]"
    by (simp add: iterate_cells_def call_finder_args_def)
  ultimately show ?thesis by simp
qed

lemma min_max_lattice: "find_min_max_positions (lattice27 (5/2)) = Inr ((0, 0, 0), (5, 5, 5))"
  by code_simp

lemma resolve_lattice:
  "resolve_geometry cbrt_sample (length (lattice27 (5/2))) (0, 0, 0) (5, 5, 5) = Some ((2, 2, 2), (2/5, 2/5, 2/5))"
  by code_simp

theorem dilute_fallback_open_mode_witness:
  "\<exists>g. Grid_new cbrt_sample Normal (lattice27 (5/2)) = Inr g \<and> number_of_cells g = (1, 1, 1) \<and>
       cells g = [lattice27 (5/2)] \<and> iterate_cells Normal g = [(lattice27 (5/2), [])]"
  using dilute_fallback_open_mode [OF min_max_lattice resolve_lattice]
  by simp

text \<open>
  Claim C4 as stated also covers the periodic mode.  There the constructor never takes the
  dilute branch: one particle resolves to one cell per axis, and the periodic grid has
  \<open>3 \<times> 3 \<times> 2\<close> cells and hands the home cell 13 neighbour cells.
\<close>

theorem dilute_fallback_periodic_counterexample:
  "find_min_max_positions (line 1 1) = Inr ((0, 0, 0), (0, 0, 0)) \<and>
   resolve_geometry cbrt_sample (length (line 1 1)) (0, 0, 0) (0, 0, 0) = Some ((1, 1, 1), (2/5, 2/5, 2/5)) \<and>
   \<not> isl (Grid_new cbrt_sample PeriodicBoundaries (line 1 1)) \<and>
   number_of_cells (projr (Grid_new cbrt_sample PeriodicBoundaries (line 1 1))) = (3, 3, 2) \<and>
   length (cells (projr (Grid_new cbrt_sample PeriodicBoundaries (line 1 1)))) = 18 \<and>
   iterate_cells_idx PeriodicBoundaries (projr (Grid_new cbrt_sample PeriodicBoundaries (line 1 1))) =
     [(4, [5, 6, 7, 8, 9, 10, 11, 12, 13, 14, 15, 16, 17])]"
  by code_simp

text \<open>
  Claim C7 as stated expects a \<open>3 \<times> 3 \<times> 3\<close> grid for the lattice with spacing 2.5.  The
  lattice spans 5.0 per axis, which resolves to 2 cells, so the constructor takes the
  dilute branch.
\<close>

theorem lattice_scenario_counterexample:
  "number_of_cells (projr (Grid_new cbrt_sample Normal (lattice27 (5/2)))) = (1, 1, 1) \<and>
   number_of_cells (projr (Grid_new cbrt_sample Normal (lattice27 (5/2)))) \<noteq> (3, 3, 3) \<and>
   length (cells (projr (Grid_new cbrt_sample Normal (lattice27 (5/2))))) = 1"
  by code_simp

text \<open>
  Claim C7, amended.  For the 27 particles of the \<open>3 \<times> 3 \<times> 3\<close> lattice with spacing 2.5 in
  open mode every axis resolves to 2 cells; the grid has cell counts \<open>(1, 1, 1)\<close>, one cell
  with all particles, and the traversal makes one call without neighbours.  With spacing 3
  the grid is \<open>3 \<times> 3 \<times> 3\<close>, each particle is alone in its cell, in lattice order, and the
  corner cell 0 gets the 7 distinct neighbour cells 1, 3, 4, 9, 10, 12 and 13.
\<close>

theorem lattice_scenario:
  "\<not> isl (Grid_new cbrt_sample Normal (lattice27 (5/2))) \<and>
   map_option fst (resolve_geometry cbrt_sample (length (lattice27 (5/2))) (0, 0, 0) (5, 5, 5)) =
     Some (2, 2, 2) \<and>
   number_of_cells (projr (Grid_new cbrt_sample Normal (lattice27 (5/2)))) = (1, 1, 1) \<and>
   cells (projr (Grid_new cbrt_sample Normal (lattice27 (5/2)))) = [lattice27 (5/2)] \<and>
   iterate_cells Normal (projr (Grid_new cbrt_sample Normal (lattice27 (5/2)))) = [(lattice27 (5/2), [])] \<and>
   \<not> isl (Grid_new cbrt_sample Normal (lattice27 3)) \<and>
   number_of_cells (projr (Grid_new cbrt_sample Normal (lattice27 3))) = (3, 3, 3) \<and>
   cells (projr (Grid_new cbrt_sample Normal (lattice27 3))) = map (\<lambda>p. [p]) (lattice27 3) \<and>
   hd (iterate_cells_idx Normal (projr (Grid_new cbrt_sample Normal (lattice27 3)))) =
     (0, [1, 3, 4, 9, 10, 12, 13]) \<and>
   distinct [1, 3, 4, 9, 10, 12, 13 :: int]"
  by code_simp

section \<open>The out-of-bounds check\<close>

lemma fill_cells_error_iff:
  "(\<exists>e. fill_cells opt g ps = Inl e) \<longleftrightarrow> (\<exists>p \<in> set ps. out_of_bounds opt g p)"
proof -
  have "(\<exists>e. fill_cells opt g ps = Inl e) \<longleftrightarrow> \<not> (\<exists>g'. fill_cells opt g ps = Inr g')"
    by (cases "fill_cells opt g ps") simp_all
  also have "\<dots> \<longleftrightarrow> (\<exists>p \<in> set ps. out_of_bounds opt g p)"
    by (simp add: fill_cells_ok)
  finally show ?thesis .
qed

lemma min_max_step_le:
  assumes "a0 \<le> b0 \<and> a1 \<le> b1 \<and> a2 \<le> (b2 :: real)"
    and "min_max_step p ((a0, a1, a2), (b0, b1, b2)) = ((c0, c1, c2), (d0, d1, d2))"
  shows "c0 \<le> d0 \<and> c1 \<le> d1 \<and> c2 \<le> d2"
  using assms by (auto simp: min_max_step_def split: prod.splits)

lemma fold_min_max_le:
  assumes "a0 \<le> b0 \<and> a1 \<le> b1 \<and> a2 \<le> (b2 :: real)"
    and "fold min_max_step ps ((a0, a1, a2), (b0, b1, b2)) = ((c0, c1, c2), (d0, d1, d2))"
  shows "c0 \<le> d0 \<and> c1 \<le> d1 \<and> c2 \<le> d2"
  using assms
proof (induction ps arbitrary: a0 a1 a2 b0 b1 b2)
  case Nil
  then show ?case by simp
next
  case (Cons p ps)
  obtain e0 e1 e2 f0 f1 f2 where
    st: "min_max_step p ((a0, a1, a2), (b0, b1, b2)) = ((e0, e1, e2), (f0, f1, f2))"
    by (metis prod.exhaust)
  from min_max_step_le [OF Cons.prems(1) st] have le: "e0 \<le> f0 \<and> e1 \<le> f1 \<and> e2 \<le> f2" .
  from Cons.prems(2) st
  have "fold min_max_step ps ((e0, e1, e2), (f0, f1, f2)) = ((c0, c1, c2), (d0, d1, d2))"
    by simp
  from Cons.IH [OF le this] show ?case .
qed

lemma find_min_max_le:
  assumes "find_min_max_positions ps = Inr ((a0, a1, a2), (b0, b1, b2))"
  shows "a0 \<le> b0 \<and> a1 \<le> b1 \<and> a2 \<le> b2"
proof (cases ps)
  case Nil
  with assms show ?thesis by simp
next
  case (Cons p qs)
  obtain v0 v1 v2 where v: "threevec (position p) = (v0, v1, v2)"
    by (metis prod.exhaust)
  from assms Cons v
  have "fold min_max_step ps ((v0, v1, v2), (v0, v1, v2)) = ((a0, a1, a2), (b0, b1, b2))"
    by (simp add: Let_def)
  from fold_min_max_le [OF _ this] show ?thesis by simp
qed

lemma axis_corner_ge:
  assumes mc: "1 \<le> mc" and ra: "resolve_axis mc (5/2) a b = Some (n, f)" and le: "a \<le> b"
  shows "n - 1 \<le> \<lfloor>(b - a) * f\<rfloor>"
proof (cases "max 1 \<lceil>(b - a) * (1 / (5/2))\<rceil> > mc")
  case True
  with resolve_axis_Some [OF ra] have n: "n = mc" and f: "f = (real_of_int mc - 1/10) / (b - a)"
    by simp_all
  have "b - a \<noteq> 0"
  proof
    assume "b - a = 0"
    with True mc show False by simp
  qed
  then have "(b - a) * f = real_of_int mc - 1/10" by (simp add: f)
  moreover have "\<lfloor>real_of_int mc - 1/10\<rfloor> = mc - 1"
    by (simp add: floor_eq_iff)
  ultimately show ?thesis using n by simp
next
  case False
  with resolve_axis_Some [OF ra]
  have n: "n = max 1 \<lceil>(b - a) * (1 / (5/2))\<rceil>" and f: "f = 1 / (5/2)"
    by simp_all
  let ?x = "(b - a) * (1 / (5/2))"
  have x0: "0 \<le> ?x" using le by simp
  then have "0 \<le> \<lfloor>?x\<rfloor>" by simp
  moreover have "\<lceil>?x\<rceil> - 1 \<le> \<lfloor>?x\<rfloor>"
    using ceiling_diff_floor_le_1 [of ?x] by linarith
  ultimately show ?thesis unfolding n f by (simp add: max_def)
qed

lemma axis_corner_exact:
  assumes k: "1 \<le> k" "k \<le> mc" and ext: "b - a = real_of_int k * (5/2)"
    and ra: "resolve_axis mc (5/2) a b = Some (n, f)"
  shows "n = k \<and> f = 2/5 \<and> \<lfloor>(b - a) * f\<rfloor> = k"
proof -
  have x: "(b - a) * (1 / (5/2)) = real_of_int k" by (simp add: ext)
  have "max 1 \<lceil>(b - a) * (1 / (5/2))\<rceil> = k" unfolding x using k(1) by simp
  with resolve_axis_Some [OF ra] k(2) have nf: "n = k" "f = 2/5"
    by simp_all
  have e: "(b - a) * (2/5) = real_of_int k" by (simp add: ext)
  have "\<lfloor>(b - a) * (2/5)\<rfloor> = k" by (subst e) (rule floor_of_int)
  with nf show ?thesis by blast
qed

lemma corner_index_ge:
  fixes n0 n1 n2 c0 c1 c2 :: int
  assumes n: "1 \<le> n0" "1 \<le> n1" "1 \<le> n2"
    and c: "n0 - 1 \<le> c0" "n1 - 1 \<le> c1" "n2 - 1 \<le> c2"
    and one: "n0 \<le> c0 \<or> n1 \<le> c1 \<or> n2 \<le> c2"
  shows "n0 * n1 * n2 \<le> (c2 * n1 + c1) * n0 + c0"
proof -
  define d0 where "d0 = c0 - (n0 - 1)"
  define d1 where "d1 = c1 - (n1 - 1)"
  define d2 where "d2 = c2 - (n2 - 1)"
  have d: "0 \<le> d0" "0 \<le> d1" "0 \<le> d2" using c by (simp_all add: d0_def d1_def d2_def)
  have sum: "1 \<le> d0 + d1 + d2" using one d by (auto simp: d0_def d1_def d2_def)
  have cs: "c0 = n0 - 1 + d0" "c1 = n1 - 1 + d1" "c2 = n2 - 1 + d2"
    by (simp_all add: d0_def d1_def d2_def)
  have "1 * 1 \<le> n1 * n0" using n by (intro mult_mono) simp_all
  then have "d2 * 1 \<le> d2 * (n1 * n0)" using d(3) by (intro mult_left_mono) simp_all
  moreover have "d1 * 1 \<le> d1 * n0" using d(2) n(1) by (intro mult_left_mono) simp_all
  ultimately have "1 \<le> d2 * (n1 * n0) + d1 * n0 + d0" using sum by simp
  moreover have "(c2 * n1 + c1) * n0 + c0 = n0 * n1 * n2 + (d2 * (n1 * n0) + d1 * n0 + d0) - 1"
    unfolding cs by (simp add: algebra_simps)
  ultimately show ?thesis by simp
qed

lemma fill_cells_error_shape:
  assumes "p \<in> set ps" "out_of_bounds opt g p"
  shows "\<exists>q idx cs. fill_cells opt g ps = Inl (OutOfBounds q idx cs)"
proof -
  from assms have "\<exists>e. fill_cells opt g ps = Inl e"
    unfolding fill_cells_error_iff by blast
  then obtain e where e: "fill_cells opt g ps = Inl e" ..
  then show ?thesis unfolding fill_cells_error by blast
qed

text \<open>
  Claim C10.  In open mode the out-of-bounds branch of the constructor is reachable.  Take
  a particle set whose grid is not dilute, with a particle at the maximum corner of the
  bounding box, and an axis whose extent is \<open>k\<close> times the interaction length 2.5 with
  \<open>1 \<le> k \<le> max_cells\<close>, so that the cap does not bind; \<open>max_cells\<close> is the truncated cube
  root of the particle count as the library computes it.  On that axis the index factor is
  \<open>1 / 2.5\<close>, without the margin of 0.1, and the corner maps to the cell coordinate equal to
  the cell count; the linear index of the corner particle is at least the number of
  cells, and the constructor of the debug build throws.
\<close>

theorem out_of_bounds_reachable:
  assumes mm: "find_min_max_positions ps = Inr ((a0, a1, a2), (b0, b1, b2))"
    and rg: "resolve_geometry std_cbrt (length ps) (a0, a1, a2) (b0, b1, b2) =
               Some ((n0, n1, n2), (f0, f1, f2))"
    and nd: "\<not> (n0 \<le> 2 \<and> n1 \<le> 2 \<and> n2 \<le> 2)"
    and k: "1 \<le> k" "k \<le> \<lfloor>std_cbrt (real (length ps))\<rfloor>"
    and ax: "b0 - a0 = real_of_int k * (5/2) \<or> b1 - a1 = real_of_int k * (5/2)
             \<or> b2 - a2 = real_of_int k * (5/2)"
    and p: "p \<in> set ps" "threevec (position p) = (b0, b1, b2)"
  shows "(\<exists>q idx cs. Grid_new std_cbrt Normal ps = Inl (OutOfBounds q idx cs)) \<and>
         n0 * n1 * n2 \<le>
           make_index_pos Normal
             \<lparr>min_position = (a0, a1, a2), index_factor = (f0, f1, f2),
              number_of_cells = (n0, n1, n2), cells = replicate (nat (n0 * n1 * n2)) []\<rparr>
             (b0, b1, b2) \<and>
         (b0 - a0 = real_of_int k * (5/2) \<longrightarrow> f0 = 2/5 \<and> \<lfloor>(b0 - a0) * f0\<rfloor> = n0) \<and>
         (b1 - a1 = real_of_int k * (5/2) \<longrightarrow> f1 = 2/5 \<and> \<lfloor>(b1 - a1) * f1\<rfloor> = n1) \<and>
         (b2 - a2 = real_of_int k * (5/2) \<longrightarrow> f2 = 2/5 \<and> \<lfloor>(b2 - a2) * f2\<rfloor> = n2)"
proof -
  let ?g = "\<lparr>min_position = (a0, a1, a2), index_factor = (f0, f1, f2),
             number_of_cells = (n0, n1, n2), cells = replicate (nat (n0 * n1 * n2)) []\<rparr>"
  let ?c0 = "\<lfloor>(b0 - a0) * f0\<rfloor>" and ?c1 = "\<lfloor>(b1 - a1) * f1\<rfloor>"
    and ?c2 = "\<lfloor>(b2 - a2) * f2\<rfloor>"
  have ne: "ps \<noteq> []" by (rule find_min_max_nonempty [OF mm])
  from resolve_geometry_Some [OF rg] obtain mc where
    sc: "static_cast_int (std_cbrt (real (length ps))) = Some mc"
    and ra: "resolve_axis mc (5/2) a0 b0 = Some (n0, f0)" "resolve_axis mc (5/2) a1 b1 = Some (n1, f1)"
      "resolve_axis mc (5/2) a2 b2 = Some (n2, f2)"
    by blast
  from k have fl: "1 \<le> \<lfloor>std_cbrt (real (length ps))\<rfloor>" by (rule order_trans)
  then have c1: "1 \<le> std_cbrt (real (length ps))" by (simp only: one_le_floor)
  then have "0 \<le> std_cbrt (real (length ps))" by simp
  from static_cast_int_nonneg [OF sc this] have mcf: "mc = \<lfloor>std_cbrt (real (length ps))\<rfloor>" .
  have mc: "1 \<le> mc" unfolding mcf by (rule fl)
  have km: "k \<le> mc" unfolding mcf by (rule k(2))
  note kb = k(1) km
  from resolve_geometry_le_2 [OF rg nd] have n: "1 \<le> n0" "1 \<le> n1" "1 \<le> n2" by simp_all
  from find_min_max_le [OF mm] have le: "a0 \<le> b0" "a1 \<le> b1" "a2 \<le> b2" by simp_all
  have c: "n0 - 1 \<le> ?c0" "n1 - 1 \<le> ?c1" "n2 - 1 \<le> ?c2"
    by (rule axis_corner_ge [OF mc ra(1) le(1)], rule axis_corner_ge [OF mc ra(2) le(2)],
        rule axis_corner_ge [OF mc ra(3) le(3)])
  have e0: "b0 - a0 = real_of_int k * (5/2) \<Longrightarrow> f0 = 2/5 \<and> ?c0 = n0"
    using axis_corner_exact [OF kb _ ra(1)] by blast
  have e1: "b1 - a1 = real_of_int k * (5/2) \<Longrightarrow> f1 = 2/5 \<and> ?c1 = n1"
    using axis_corner_exact [OF kb _ ra(2)] by blast
  have e2: "b2 - a2 = real_of_int k * (5/2) \<Longrightarrow> f2 = 2/5 \<and> ?c2 = n2"
    using axis_corner_exact [OF kb _ ra(3)] by blast
  from ax e0 e1 e2 have one: "n0 \<le> ?c0 \<or> n1 \<le> ?c1 \<or> n2 \<le> ?c2" by auto
  have idx: "make_index_pos Normal ?g (b0, b1, b2) = (?c2 * n1 + ?c1) * n0 + ?c0"
    by (simp add: make_index_pos_def make_index_def)
  have big: "n0 * n1 * n2 \<le> make_index_pos Normal ?g (b0, b1, b2)"
    unfolding idx by (rule corner_index_ge [OF n c one])
  have nn: "0 \<le> n0 * n1 * n2" using n by simp
  have oob: "out_of_bounds Normal ?g p"
    using big nn by (simp add: out_of_bounds_def p(2) Let_def)
  have "Grid_new std_cbrt Normal ps = fill_cells Normal ?g ps"
    unfolding Grid_new_init [OF mm] Grid_init_normal [OF ne rg] fill_normal_cells
    by (rule if_not_P [OF nd])
  with fill_cells_error_shape [OF p(1) oob]
  have "\<exists>q idx cs. Grid_new std_cbrt Normal ps = Inl (OutOfBounds q idx cs)" by simp
  with big e0 e1 e2 show ?thesis by blast
qed

lemma min_max_line_27: "find_min_max_positions (line 27 (15/52)) = Inr ((0, 0, 0), (15/2, 0, 0))"
  by code_simp

lemma resolve_line_27:
  "resolve_geometry cbrt_sample (length (line 27 (15/52))) (0, 0, 0) (15/2, 0, 0) =
     Some ((3, 1, 1), (2/5, 2/5, 2/5))"
  by code_simp

lemma cbrt_sample_line_27: "\<lfloor>cbrt_sample (real (length (line 27 (15/52))))\<rfloor> = 3"
  by code_simp

lemma corner_line_27:
  "particle 26 (15/2) 0 0 \<in> set (line 27 (15/52)) \<and>
   threevec (position (particle 26 (15/2) 0 0)) = (15/2, 0, 0)"
  by code_simp

theorem out_of_bounds_reachable_witness:
  "(\<exists>q idx cs. Grid_new cbrt_sample Normal (line 27 (15/52)) = Inl (OutOfBounds q idx cs)) \<and>
   (3 :: int) * 1 * 1 \<le>
     make_index_pos Normal
       \<lparr>min_position = (0, 0, 0), index_factor = (2/5, 2/5, 2/5),
        number_of_cells = (3, 1, 1), cells = replicate (nat (3 * 1 * 1)) []\<rparr>
       (15/2, 0, 0)"
  using out_of_bounds_reachable [OF min_max_line_27 resolve_line_27, of 3 "particle 26 (15/2) 0 0"]
    corner_line_27
  by (simp add: cbrt_sample_line_27)


lemma Grid_new_periodic_fill:
  assumes mm: "find_min_max_positions ps = Inr ((a0, a1, a2), (b0, b1, b2))"
    and rg: "resolve_geometry std_cbrt (length ps) (a0, a1, a2) (b0, b1, b2) =
               Some ((n0, n1, n2), fs)"
  shows "Grid_new std_cbrt PeriodicBoundaries ps =
     (case fill_cells PeriodicBoundaries
        \<lparr>min_position = (a0, a1, a2), index_factor = fs,
         number_of_cells = (n0 + 2, n1 + 2, n2 + 1),
         cells = replicate (nat ((n0 + 2) * (n1 + 2) * (n2 + 1))) []\<rparr> ps of
        Inl e \<Rightarrow> Inl e
      | Inr g \<Rightarrow> Inr (fill_ghost_cells (b0 - a0, b1 - a1, b2 - a2) g))"
  unfolding Grid_new_init [OF mm] Grid_init_periodic [OF find_min_max_nonempty [OF mm] rg]
    fill_non_ghost_cells ..

lemma fold_bucket_length: "length (fold (bucket opt g) ps cs) = length cs"
  by (induction ps arbitrary: cs) (simp_all add: length_bucket)



text \<open>
  Claim C8.  The claim asks that the periodic constructor of the debug build throws when a
  particle maps outside the interior cells, and that no particle is dropped silently.  The
  bounds of the check are the indices of the first and the last interior cell, and the
  loop is introduced as the one that fills the non-ghost cells; but the check compares
  linear indices only.  For 8 particles on a line of length 5 in periodic mode the grid has
  \<open>4 \<times> 3 \<times> 2\<close> cells, and particle 7 at \<open>x = 5\<close> maps to the ghost cell \<open>(3, 1, 0)\<close>, whose
  index 7 lies between the two bounds of the check, the index 5 of the first interior cell
  \<open>(1, 1, 0)\<close> and the index 23 of the cell \<open>(3, 2, 1)\<close>.  The constructor returns without an
  error, the ghost fill overwrites the cell, and particle 7 is in no cell of the grid.
\<close>

theorem ghost_cell_insertion_not_detected:
  "\<not> isl (Grid_new cbrt_sample PeriodicBoundaries (line 8 (5/7))) \<and>
   number_of_cells (projr (Grid_new cbrt_sample PeriodicBoundaries (line 8 (5/7)))) = (4, 3, 2) \<and>
   particle 7 5 0 0 \<in> set (line 8 (5/7)) \<and>
   make_index_pos PeriodicBoundaries (projr (Grid_new cbrt_sample PeriodicBoundaries (line 8 (5/7))))
     (threevec (position (particle 7 5 0 0))) =
     make_index (projr (Grid_new cbrt_sample PeriodicBoundaries (line 8 (5/7)))) 3 1 0 \<and>
   is_ghost_cell (projr (Grid_new cbrt_sample PeriodicBoundaries (line 8 (5/7)))) 3 1 0 \<and>
   make_index (projr (Grid_new cbrt_sample PeriodicBoundaries (line 8 (5/7)))) 1 1 0
     < make_index (projr (Grid_new cbrt_sample PeriodicBoundaries (line 8 (5/7)))) 3 1 0 \<and>
   make_index (projr (Grid_new cbrt_sample PeriodicBoundaries (line 8 (5/7)))) 3 1 0
     < make_index (projr (Grid_new cbrt_sample PeriodicBoundaries (line 8 (5/7)))) 3 2 1 \<and>
   7 \<notin> set (map pid (concat (cells (projr (Grid_new cbrt_sample PeriodicBoundaries (line 8 (5/7)))))))"
  by code_simp

section \<open>The linear index\<close>


lemma row_nonneg:
  fixes a n x :: int
  assumes "0 \<le> a" "0 \<le> n" "0 \<le> x"
  shows "0 \<le> a * n + x"
  using assms by simp


lemma make_index_lin:
  "number_of_cells g = (nx, ny, nz) \<Longrightarrow> make_index g x y z = (z * ny + y) * nx + x"
  by (simp add: make_index_def)





lemma cell_coords_make_index:
  assumes nc: "number_of_cells g = (nx, ny, nz)" and c: "in_grid g (x, y, z)"
  shows "cell_coords g (make_index g x y z) = (x, y, z)"
proof -
  from c nc have r: "0 \<le> x" "x < nx" "0 \<le> y" "y < ny" "0 \<le> z" "z < nz"
    by (simp_all add: in_grid_def)
  let ?i = "(z * ny + y) * nx + x"
  have m: "?i mod nx = x" using r by simp
  have d: "?i div nx = z * ny + y" using r by simp
  have d2: "?i div (nx * ny) = z"
  proof -
    have "?i div (nx * ny) = ?i div nx div ny"
      using r by (simp add: zdiv_zmult2_eq)
    also have "\<dots> = z" unfolding d using r by simp
    finally show ?thesis .
  qed
  have "(?i div nx) mod ny = y" unfolding d using r by simp
  with m d2 show ?thesis by (simp add: cell_coords_def make_index_lin [OF nc] nc)
qed


section \<open>The traversal as a list of calls, one per home cell\<close>






lemma iterate_cells_idx_periodic:
  assumes nc: "number_of_cells g = (nx, ny, nz)"
  shows "iterate_cells_idx PeriodicBoundaries g =
           map (home_call PeriodicBoundaries g) (home_cells PeriodicBoundaries g)"
  by (simp add: iterate_cells_idx_def home_cells_def home_call_def nc map_concat comp_def
      Let_def)

lemma set_cell_list:
  "set (concat (map (\<lambda>z. concat (map (\<lambda>y. map (\<lambda>x. (x, y, z)) xs) ys)) zs)) =
     {(x, y, z). x \<in> set xs \<and> y \<in> set ys \<and> z \<in> set zs}"
  by auto





lemma set_home_cells_periodic:
  assumes nc: "number_of_cells g = (nx, ny, nz)"
  shows "set (home_cells PeriodicBoundaries g) =
           {(x, y, z). 1 \<le> x \<and> x \<le> nx - 2 \<and> 1 \<le> y \<and> y \<le> ny - 2 \<and> 0 \<le> z \<and> z \<le> nz - 2}"
proof -
  have "home_cells PeriodicBoundaries g =
          concat (map (\<lambda>z. concat (map (\<lambda>y. map (\<lambda>x. (x, y, z)) [1..nx - 2]) [1..ny - 2]))
            [0..nz - 2])"
    by (simp add: home_cells_def nc)
  then have "set (home_cells PeriodicBoundaries g) =
     {(x, y, z). x \<in> set [1..nx - 2] \<and> y \<in> set [1..ny - 2] \<and> z \<in> set [0..nz - 2]}"
    by (simp only: set_cell_list)
  then show ?thesis by auto
qed







section \<open>Neighbour lists and cell contents in open mode\<close>














section \<open>Pairs delivered by the traversal in open mode\<close>















end
